theory Spec2Isabelle
  imports Complex_Main "HOL-Library.Char_ord" "HOL-Library.List_Lexorder"
begin

section \<open>JavaScript values and strings\<close>

text \<open>
  The request parameters and the server's response envelope are arbitrary JSON-like
  JavaScript values. An object is an association list in property enumeration order
  (the order \<^verbatim>\<open>Object.keys\<close> and \<^verbatim>\<open>JSON.stringify\<close> visit), so two objects with the same
  properties inserted in a different order are different values here. Numbers inside
  such values are integers; strings are byte strings (ASCII text is what the program's
  own literals use).
\<close>

datatype jsv =
    JUndefined
  | JNull
  | JBool bool
  | JNum int
  | JStr string
  | JArr "jsv list"
  | JObj "(string \<times> jsv) list"

text \<open>Falsiness, as \<^verbatim>\<open>!v\<close> tests it.\<close>

fun falsy :: "jsv \<Rightarrow> bool" where
  "falsy JUndefined = True"
| "falsy JNull = True"
| "falsy (JBool b) = (\<not> b)"
| "falsy (JNum n) = (n = 0)"
| "falsy (JStr s) = (s = [])"
| "falsy (JArr xs) = False"
| "falsy (JObj kvs) = False"

text \<open>\<^verbatim>\<open>typeof v === 'object'\<close> (true of \<^verbatim>\<open>null\<close>, arrays and objects).\<close>

fun typeof_object :: "jsv \<Rightarrow> bool" where
  "typeof_object JNull = True"
| "typeof_object (JArr xs) = True"
| "typeof_object (JObj kvs) = True"
| "typeof_object v = False"

text \<open>\<^verbatim>\<open>Array.prototype.join\<close> on an array of strings.\<close>

fun join :: "string \<Rightarrow> string list \<Rightarrow> string" where
  "join sep [] = []"
| "join sep [x] = x"
| "join sep (x # y # ys) = x @ sep @ join sep (y # ys)"

text \<open>Decimal rendering of an integer-valued number (\<^verbatim>\<open>String(n)\<close>).\<close>

definition digit_char :: "int \<Rightarrow> char" where
  "digit_char d = char_of (48 + d)"

function show_digits :: "int \<Rightarrow> string" where
  "show_digits n =
     (if n < 10 then [digit_char n] else show_digits (n div 10) @ [digit_char (n mod 10)])"
  by pat_completeness auto
termination
  by (relation "measure nat") auto

declare show_digits.simps [simp del]

definition show_int :: "int \<Rightarrow> string" where
  "show_int n = (if n < 0 then CHR ''-'' # show_digits (- n) else show_digits n)"

text \<open>\<^verbatim>\<open>String.prototype.toUpperCase\<close> on ASCII text.\<close>

definition upper_char :: "char \<Rightarrow> char" where
  "upper_char c =
     (if CHR ''a'' \<le> c \<and> c \<le> CHR ''z'' then char_of (of_char c - (32::nat)) else c)"

definition toUpperCase :: "string \<Rightarrow> string" where
  "toUpperCase s = map upper_char s"

text \<open>
  Own enumerable properties: of an object its entries, of an array and of a string
  the indexed elements; a number, a boolean, \<^verbatim>\<open>null\<close> and \<^verbatim>\<open>undefined\<close> have none
  (the program guards \<^verbatim>\<open>Object.keys\<close> with \<^verbatim>\<open>!params\<close>, so it never throws on the
  last two).
\<close>

fun index_entries :: "nat \<Rightarrow> jsv list \<Rightarrow> (string \<times> jsv) list" where
  "index_entries i [] = []"
| "index_entries i (x # xs) = (show_int (int i), x) # index_entries (Suc i) xs"

fun Object_entries :: "jsv \<Rightarrow> (string \<times> jsv) list" where
  "Object_entries (JObj kvs) = kvs"
| "Object_entries (JArr xs) = index_entries 0 xs"
| "Object_entries (JStr s) = index_entries 0 (map (\<lambda>c. JStr [c]) s)"
| "Object_entries v = []"

definition Object_keys :: "jsv \<Rightarrow> string list" where
  "Object_keys v = map fst (Object_entries v)"

text \<open>Property read \<^verbatim>\<open>obj[key]\<close>: \<^verbatim>\<open>undefined\<close> when the property is missing.\<close>

definition js_get :: "jsv \<Rightarrow> string \<Rightarrow> jsv" where
  "js_get v k = (case map_of (Object_entries v) k of None \<Rightarrow> JUndefined | Some x \<Rightarrow> x)"

text \<open>String conversion, as a template literal applies it to a value.\<close>

fun js_toString :: "jsv \<Rightarrow> string" where
  "js_toString JUndefined = ''undefined''"
| "js_toString JNull = ''null''"
| "js_toString (JBool b) = (if b then ''true'' else ''false'')"
| "js_toString (JNum n) = show_int n"
| "js_toString (JStr s) = s"
| "js_toString (JArr xs) =
     join '','' (map (\<lambda>x. if x = JUndefined \<or> x = JNull then [] else js_toString x) xs)"
| "js_toString (JObj kvs) = ''[object Object]''"

subsection \<open>encodeURIComponent\<close>

definition hex_digit :: "nat \<Rightarrow> char" where
  "hex_digit d = (if d < 10 then char_of (48 + d) else char_of (55 + d))"

definition uri_unreserved :: "char \<Rightarrow> bool" where
  "uri_unreserved c \<longleftrightarrow>
     (CHR ''A'' \<le> c \<and> c \<le> CHR ''Z'') \<or> (CHR ''a'' \<le> c \<and> c \<le> CHR ''z'') \<or>
     (CHR ''0'' \<le> c \<and> c \<le> CHR ''9'') \<or> c \<in> set ''-_.!~*'()''"

definition encode_char :: "char \<Rightarrow> string" where
  "encode_char c =
     (if uri_unreserved c then [c]
      else [CHR ''%'', hex_digit (of_char c div 16), hex_digit (of_char c mod 16)])"

definition encodeURIComponent :: "string \<Rightarrow> string" where
  "encodeURIComponent s = concat (map encode_char s)"

subsection \<open>JSON.stringify\<close>

definition hex_lower :: "nat \<Rightarrow> char" where
  "hex_lower d = (if d < 10 then char_of (48 + d) else char_of (87 + d))"

definition json_escape_char :: "char \<Rightarrow> string" where
  "json_escape_char c =
     (if c = CHR ''\"'' then [CHR 0x5C, CHR ''\"'']
      else if c = CHR 0x5C then [CHR 0x5C, CHR 0x5C]
      else if c = CHR 0x08 then [CHR 0x5C, CHR ''b'']
      else if c = CHR 0x0C then [CHR 0x5C, CHR ''f'']
      else if c = CHR 0x0A then [CHR 0x5C, CHR ''n'']
      else if c = CHR 0x0D then [CHR 0x5C, CHR ''r'']
      else if c = CHR 0x09 then [CHR 0x5C, CHR ''t'']
      else if (of_char c :: nat) < 32
        then [CHR 0x5C, CHR ''u'', CHR ''0'', CHR ''0'',
              hex_lower (of_char c div 16), hex_lower (of_char c mod 16)]
      else [c])"

definition json_quote :: "string \<Rightarrow> string" where
  "json_quote s = [CHR ''\"''] @ concat (map json_escape_char s) @ [CHR ''\"'']"

text \<open>
  \<^verbatim>\<open>JSON.stringify(v)\<close> with no replacer and no indentation. \<^verbatim>\<open>None\<close> is the
  result \<^verbatim>\<open>undefined\<close>. Inside an array \<^verbatim>\<open>undefined\<close> is written \<^verbatim>\<open>null\<close>; inside an
  object a property whose value is \<^verbatim>\<open>undefined\<close> is left out. Properties are written
  in enumeration order.
\<close>

fun JSON_stringify :: "jsv \<Rightarrow> string option"
  and stringify_elems :: "jsv list \<Rightarrow> string list"
  and stringify_props :: "(string \<times> jsv) list \<Rightarrow> string list" where
  "JSON_stringify JUndefined = None"
| "JSON_stringify JNull = Some ''null''"
| "JSON_stringify (JBool b) = Some (if b then ''true'' else ''false'')"
| "JSON_stringify (JNum n) = Some (show_int n)"
| "JSON_stringify (JStr s) = Some (json_quote s)"
| "JSON_stringify (JArr xs) = Some (''['' @ join '','' (stringify_elems xs) @ '']'')"
| "JSON_stringify (JObj kvs) = Some (''{'' @ join '','' (stringify_props kvs) @ ''}'')"
| "stringify_elems [] = []"
| "stringify_elems (x # xs) =
     (case JSON_stringify x of None \<Rightarrow> ''null'' | Some s \<Rightarrow> s) # stringify_elems xs"
| "stringify_props [] = []"
| "stringify_props (kv # kvs) =
     (case JSON_stringify (snd kv) of
        None \<Rightarrow> stringify_props kvs
      | Some s \<Rightarrow> (json_quote (fst kv) @ '':'' @ s) # stringify_props kvs)"

text \<open>\<^verbatim>\<open>JSON.stringify\<close> of an object literal: always a string.\<close>

definition stringify_object :: "(string \<times> jsv) list \<Rightarrow> string" where
  "stringify_object kvs = ''{'' @ join '','' (stringify_props kvs) @ ''}''"

section \<open>Risk Matrix: parameter serialisation\<close>

text \<open>
  \<^verbatim>\<open>_serializeGetParams\<close>: the keys sorted, each key and each value sent through
  \<^verbatim>\<open>encodeURIComponent\<close>, joined as \<^verbatim>\<open>k=v&k=v\<close>. The default \<^verbatim>\<open>sort()\<close> compares
  strings by code unit, which on byte strings is the lexicographic order of lists.
\<close>

definition serializeGetParams :: "jsv \<Rightarrow> string" where
  "serializeGetParams params =
     (if falsy params then []
      else if \<not> typeof_object params then []
      else if length (Object_keys params) = 0 then []
      else join ''&''
        (map (\<lambda>key. encodeURIComponent key @ ''='' @
                      encodeURIComponent (js_toString (js_get params key)))
             (sort (Object_keys params))))"

text \<open>
  \<^verbatim>\<open>_canonicalJsonStringify\<close>, the helper the module defines for sorted-key JSON.
  A primitive goes to \<^verbatim>\<open>JSON.stringify\<close>; an array joins its items (\<^verbatim>\<open>join\<close> writes
  an \<^verbatim>\<open>undefined\<close> item as the empty string); an object writes its keys sorted, each
  value through the template literal (which writes \<^verbatim>\<open>undefined\<close> as that word).
\<close>

function canonicalJsonStringify :: "jsv \<Rightarrow> string option" where
  "canonicalJsonStringify (JArr xs) =
     Some (''['' @ join '','' (map (\<lambda>item. case canonicalJsonStringify item of
                                           None \<Rightarrow> [] | Some s \<Rightarrow> s) xs) @ '']'')"
| "canonicalJsonStringify (JObj kvs) =
     Some (''{'' @ join '',''
        (map (\<lambda>key. json_quote key @ '':'' @
                (case canonicalJsonStringify (js_get (JObj kvs) key) of
                   None \<Rightarrow> ''undefined'' | Some s \<Rightarrow> s))
             (sort (Object_keys (JObj kvs)))) @ ''}'')"
| "canonicalJsonStringify JUndefined = JSON_stringify JUndefined"
| "canonicalJsonStringify JNull = JSON_stringify JNull"
| "canonicalJsonStringify (JBool b) = JSON_stringify (JBool b)"
| "canonicalJsonStringify (JNum n) = JSON_stringify (JNum n)"
| "canonicalJsonStringify (JStr s) = JSON_stringify (JStr s)"
  by pat_completeness auto
termination
proof (relation "measure size")
  show "wf (measure size)"
    by simp
next
  fix xs :: "jsv list" and item
  assume "item \<in> set xs"
  then show "(item, JArr xs) \<in> measure size"
    by (simp add: less_Suc_eq_le size_list_estimation')
next
  fix kvs :: "(string \<times> jsv) list" and key
  show "(js_get (JObj kvs) key, JObj kvs) \<in> measure size"
  proof (cases "map_of kvs key")
    case None
    then show ?thesis
      by (simp add: js_get_def)
  next
    case (Some v)
    then have "(key, v) \<in> set kvs"
      by (rule map_of_SomeD)
    then have "size v < size_list (size_prod (\<lambda>_. 0) size) kvs"
      by (rule size_list_estimation) simp
    with Some show ?thesis
      by (simp add: js_get_def)
  qed
qed

text \<open>
  The branch of \<^verbatim>\<open>assessAndSign\<close> that serialises the parameters, on the uppercased
  method. A method outside the five listed keeps the initial empty string. For the
  body methods the source calls \<^verbatim>\<open>JSON.stringify(params)\<close>, which answers
  \<^verbatim>\<open>undefined\<close> for no value that passed the guard; that unreachable case is
  written as the empty string, which \<^verbatim>\<open>join\<close> makes of \<^verbatim>\<open>undefined\<close>.
\<close>

definition serializedParams :: "string \<Rightarrow> jsv \<Rightarrow> string" where
  "serializedParams httpMethod params =
     (if httpMethod = ''GET'' then serializeGetParams params
      else if httpMethod \<in> set [''POST'', ''PUT'', ''PATCH'', ''DELETE''] then
        (if falsy params \<or> length (Object_keys params) = 0 then ''{}''
         else (case JSON_stringify params of Some s \<Rightarrow> s | None \<Rightarrow> []))
      else [])"

section \<open>The collected-data bag\<close>

text \<open>
  \<^verbatim>\<open>DataLoom.gather\<close> returns an object with one property per collector that ran.
  A property is absent (\<^verbatim>\<open>None\<close>) when its collector is not in the policy. The canvas
  and the audio probes return a string either way (a fingerprint or a sentinel); the
  WebGL, platform, screen and performance probes return a sentinel string or an object.
  Numbers are exact reals here (the source's are IEEE doubles).
\<close>

datatype 'a probe = Sentinel string | Result 'a

record webgl_info =
  vendor :: "string option"
  renderer :: "string option"

record platform_info =
  p_platform :: string
  p_plugins :: string
  p_touchPoints :: nat
  p_clickCount :: nat

record screen_info =
  s_screen :: string
  s_language :: string

record perf_info =
  perf_type :: string
  transferSize :: real
  loadTime :: real

record analysis_result =
  regularity_score :: real
  is_straight_line :: bool

record trajectory_result =
  points :: "(real \<times> real \<times> real) list"
  analysis :: analysis_result

record anomaly =
  webdriver :: bool
  webdriver_tampered :: bool
  headless_chrome :: bool
  tostring_tampered :: bool
  stack_anomaly :: "string option"
  permissions_denied :: bool
  permissions_error :: "string option"

record collected =
  canvas :: "string option"
  webgl :: "webgl_info probe option"
  audio :: "string option"
  platform :: "platform_info probe option"
  screen :: "screen_info probe option"
  performance :: "perf_info probe option"
  mouse_trajectory :: "trajectory_result option"
  anomaly_scan :: "anomaly option"

section \<open>Risk Matrix: the scoring engine\<close>

text \<open>
  The weight map of the policy. \<^verbatim>\<open>weights.k || dflt\<close> takes the default when the
  weight is missing or is \<^verbatim>\<open>0\<close>.
\<close>

type_synonym weights = "string \<rightharpoonup> real"

definition weight_or :: "weights \<Rightarrow> string \<Rightarrow> real \<Rightarrow> real" where
  "weight_or w k dflt = (case w k of None \<Rightarrow> dflt | Some x \<Rightarrow> if x = 0 then dflt else x)"

text \<open>
  \<^verbatim>\<open>collectedData.platform || {}\<close> followed by reads of \<^verbatim>\<open>touchPoints\<close> and
  \<^verbatim>\<open>clickCount\<close>: on a missing probe and on a sentinel string both reads give
  \<^verbatim>\<open>undefined\<close>, so the device is not a touch device and the click count is 0.
\<close>

definition isTouchDevice :: "collected \<Rightarrow> bool" where
  "isTouchDevice d = (case platform d of Some (Result p) \<Rightarrow> p_touchPoints p > 0 | _ \<Rightarrow> False)"

definition clickCount :: "collected \<Rightarrow> nat" where
  "clickCount d = (case platform d of Some (Result p) \<Rightarrow> p_clickCount p | _ \<Rightarrow> 0)"

text \<open>\<^verbatim>\<open>collectedData.mouse_trajectory || { points: [], analysis: {} }\<close>.\<close>

definition trajectory_points :: "collected \<Rightarrow> (real \<times> real \<times> real) list" where
  "trajectory_points d = (case mouse_trajectory d of None \<Rightarrow> [] | Some t \<Rightarrow> points t)"

definition trajectory_straight :: "collected \<Rightarrow> bool" where
  "trajectory_straight d =
     (case mouse_trajectory d of None \<Rightarrow> False | Some t \<Rightarrow> is_straight_line (analysis t))"

definition trajectory_regular :: "collected \<Rightarrow> bool" where
  "trajectory_regular d =
     (case mouse_trajectory d of None \<Rightarrow> False | Some t \<Rightarrow> regularity_score (analysis t) > 0.5)"

text \<open>The anomaly block; \<^verbatim>\<open>stack_anomaly\<close> is \<^verbatim>\<open>false\<close> or a string, tested for truth.\<close>

definition anomaly_term :: "collected \<Rightarrow> real \<Rightarrow> real" where
  "anomaly_term d anomalyWeight =
     (case anomaly_scan d of
        None \<Rightarrow> 0
      | Some a \<Rightarrow>
          (if webdriver a then anomalyWeight else 0)
        + (if webdriver_tampered a then anomalyWeight * 1.2 else 0)
        + (if tostring_tampered a then anomalyWeight * 1.1 else 0)
        + (case stack_anomaly a of
             None \<Rightarrow> 0
           | Some s \<Rightarrow> if s \<noteq> [] then anomalyWeight * 0.7 else 0)
        + (if permissions_denied a then 5 else 0))"

definition trajectory_term :: "collected \<Rightarrow> real \<Rightarrow> real" where
  "trajectory_term d trajectoryWeight =
     (if length (trajectory_points d) = 0 then 3
      else if length (trajectory_points d) < 5 then 2 else 0)
   + (if trajectory_straight d
        then trajectoryWeight * (if isTouchDevice d then 0.1 else 0.7)
      else if trajectory_regular d then trajectoryWeight * 0.5
      else 0)"

definition click_term :: "collected \<Rightarrow> real" where
  "click_term d =
     (if clickCount d = 0 then 1
      else if clickCount d > 5 \<and> length (trajectory_points d) > 20 then - 5
      else 0)"

definition performance_term :: "collected \<Rightarrow> real" where
  "performance_term d =
     (case performance d of
        Some (Result p) \<Rightarrow> if transferSize p = 0 \<and> perf_type p = ''navigate'' then - 5 else 0
      | _ \<Rightarrow> 0)"

text \<open>The sentinel list of the scorer, as the source writes it.\<close>

definition fingerprintErrors :: "string list" where
  "fingerprintErrors =
     [''err_canvas'', ''err_no_webgl'', ''err_webgl'', ''err_no_offline_context'',
      ''err_audio_render'', ''err_audio_context'', ''err_platform'', ''err_screen'',
      ''err_no_perf'', ''err_no_perf_api'', ''err_no_timing'']"

text \<open>
  The \<^verbatim>\<open>for (key in collectedData)\<close> loop tests every value of the bag with
  \<^verbatim>\<open>includes\<close>, which compares by identity of primitive: only a value that is a string
  can match. These are the bag's string values.
\<close>

definition sentinel_of :: "'a probe option \<Rightarrow> string list" where
  "sentinel_of r = (case r of Some (Sentinel s) \<Rightarrow> [s] | _ \<Rightarrow> [])"

definition string_values :: "collected \<Rightarrow> string list" where
  "string_values d =
     (case canvas d of Some s \<Rightarrow> [s] | None \<Rightarrow> [])
   @ sentinel_of (webgl d)
   @ (case audio d of Some s \<Rightarrow> [s] | None \<Rightarrow> [])
   @ sentinel_of (platform d)
   @ sentinel_of (screen d)
   @ sentinel_of (performance d)"

definition errorCount :: "collected \<Rightarrow> nat" where
  "errorCount d = length (filter (\<lambda>v. v \<in> set fingerprintErrors) (string_values d))"

definition error_term :: "collected \<Rightarrow> real" where
  "error_term d = (if errorCount d > 2 then real (errorCount d * 2) else 0)"

text \<open>The accumulated \<^verbatim>\<open>score\<close> before the final clamp.\<close>

definition score_sum :: "collected \<Rightarrow> weights \<Rightarrow> real" where
  "score_sum d w =
     anomaly_term d (weight_or w ''anomaly_scan'' 50)
   + trajectory_term d (weight_or w ''mouse_trajectory'' 25)
   + click_term d
   + performance_term d
   + error_term d"

text \<open>\<^verbatim>\<open>Math.round\<close>: to the nearest integer, a half upwards.\<close>

definition Math_round :: "real \<Rightarrow> int" where
  "Math_round x = \<lfloor>x + 1 / 2\<rfloor>"

definition calculateRiskScore :: "collected \<Rightarrow> weights \<Rightarrow> int" where
  "calculateRiskScore d w = min (Math_round (max 0 (score_sum d w))) 100"

section \<open>Risk Matrix: fingerprint and signing record\<close>

text \<open>
  \<^verbatim>\<open>collectedData.platform ? collectedData.platform.platform : 'N/A'\<close>: the fallback is
  taken when the property is missing or falsy (the empty string); a sentinel string is
  truthy and its \<^verbatim>\<open>.platform\<close> is \<^verbatim>\<open>undefined\<close>.
\<close>

definition fp_platform :: "collected \<Rightarrow> jsv" where
  "fp_platform d =
     (case platform d of
        None \<Rightarrow> JStr ''N/A''
      | Some (Sentinel s) \<Rightarrow> if s = [] then JStr ''N/A'' else JUndefined
      | Some (Result p) \<Rightarrow> JStr (p_platform p))"

definition fp_renderer :: "collected \<Rightarrow> jsv" where
  "fp_renderer d =
     (case webgl d of
        None \<Rightarrow> JStr ''N/A''
      | Some (Sentinel s) \<Rightarrow> if s = [] then JStr ''N/A'' else JUndefined
      | Some (Result g) \<Rightarrow> (case renderer g of None \<Rightarrow> JNull | Some r \<Rightarrow> JStr r))"

definition fp_audio :: "collected \<Rightarrow> jsv" where
  "fp_audio d = (case audio d of None \<Rightarrow> JUndefined | Some s \<Rightarrow> JStr s)"

definition rawFingerprintJson :: "collected \<Rightarrow> string" where
  "rawFingerprintJson d =
     stringify_object
       [(''platform'', fp_platform d), (''renderer'', fp_renderer d), (''audio'', fp_audio d)]"

text \<open>
  \<^verbatim>\<open>assessAndSign\<close>. The clock reading, the random suffix of the nonce, the session
  key \<^verbatim>\<open>getCurrentKey()\<close> resolved to and the vault's token are inputs; the two
  CryptoJS primitives are parameters. \<^verbatim>\<open>!sessionKey\<close> rejects \<^verbatim>\<open>null\<close> and the empty
  string.
\<close>

datatype sign_error = SessionKeyUnavailable

record signature_package =
  signature :: string
  timestamp :: int
  nonce :: string
  riskScore :: int
  token :: "string option"
  fingerprintJsonForSign :: string

definition make_nonce :: "int \<Rightarrow> string \<Rightarrow> string" where
  "make_nonce ts rnd = show_int ts @ ''-'' @ rnd"

definition dataToSign ::
  "collected \<Rightarrow> weights \<Rightarrow> string \<Rightarrow> jsv \<Rightarrow> string \<Rightarrow> int \<Rightarrow> string \<Rightarrow> string" where
  "dataToSign d w realUrl params method ts rnd =
     join ''||''
       [show_int ts,
        make_nonce ts rnd,
        toUpperCase method,
        realUrl,
        serializedParams (toUpperCase method) params,
        show_int (calculateRiskScore d w),
        rawFingerprintJson d]"

definition assessAndSign ::
  "(string \<Rightarrow> string \<Rightarrow> string) \<Rightarrow> (string \<Rightarrow> string \<Rightarrow> string) \<Rightarrow>
   string option \<Rightarrow> string option \<Rightarrow>
   collected \<Rightarrow> weights \<Rightarrow> string \<Rightarrow> jsv \<Rightarrow> string \<Rightarrow> int \<Rightarrow> string \<Rightarrow>
   sign_error + signature_package" where
  "assessAndSign hmacSHA256 aesEncrypt sessionKey sessionToken d w realUrl params method ts rnd =
     (case sessionKey of
        None \<Rightarrow> Inl SessionKeyUnavailable
      | Some key \<Rightarrow>
          if key = [] then Inl SessionKeyUnavailable
          else Inr \<lparr> signature = hmacSHA256 (dataToSign d w realUrl params method ts rnd) key,
                     timestamp = ts,
                     nonce = make_nonce ts rnd,
                     riskScore = calculateRiskScore d w,
                     token = sessionToken,
                     fingerprintJsonForSign = aesEncrypt (rawFingerprintJson d) key \<rparr>)"

section \<open>Example bags\<close>

text \<open>The bag of a policy that ran no collector.\<close>

definition no_probes :: collected where
  "no_probes = \<lparr> canvas = None, webgl = None, audio = None, platform = None, screen = None,
                  performance = None, mouse_trajectory = None, anomaly_scan = None \<rparr>"

text \<open>
  A bag whose audio probe found no offline audio context and whose page came from the
  cache: no mouse movement (+3), no click (+1), cached navigation (-5), one sentinel.
\<close>

definition ping_bag :: collected where
  "ping_bag = no_probes
     \<lparr> audio := Some ''err_no_offline_context'',
       performance := Some (Result \<lparr> perf_type = ''navigate'', transferSize = 0, loadTime = 0 \<rparr>) \<rparr>"

text \<open>A bag whose platform probe failed while WebGL and audio succeeded.\<close>

definition platform_failed_bag :: collected where
  "platform_failed_bag = no_probes
     \<lparr> webgl := Some (Result \<lparr> vendor = Some ''Mesa'', renderer = Some ''llvmpipe'' \<rparr>),
       audio := Some ''35.7'',
       platform := Some (Sentinel ''err_platform'') \<rparr>"

text \<open>A bag with three failed probes: canvas, WebGL and performance.\<close>

definition three_errors_bag :: collected where
  "three_errors_bag = no_probes
     \<lparr> canvas := Some ''err_canvas'',
       webgl := Some (Sentinel ''err_no_webgl''),
       performance := Some (Sentinel ''err_perf'') \<rparr>"

section \<open>Session Vault\<close>

text \<open>The module state of the vault: key, token, expiry and the refresh flag.\<close>

record vault =
  sessionKey :: "string option"
  sessionToken :: "string option"
  expiresAt :: int
  isRefreshing :: bool

definition KEY_LIFESPAN_MS :: int where
  "KEY_LIFESPAN_MS = 30 * 60 * 1000"

definition REFRESH_BUFFER_MS :: int where
  "REFRESH_BUFFER_MS = 2 * 60 * 1000"

definition initial_vault :: vault where
  "initial_vault = \<lparr> sessionKey = None, sessionToken = None, expiresAt = 0, isRefreshing = False \<rparr>"

text \<open>
  What the network did to one POST to \<^verbatim>\<open>/warden/init\<close>: \<^verbatim>\<open>fetch\<close> rejected, or it
  resolved to a response with its \<^verbatim>\<open>ok\<close> flag and the outcome of \<^verbatim>\<open>response.json()\<close>
  (\<^verbatim>\<open>None\<close> when the body does not parse).
\<close>

datatype fetch_outcome = NetworkError | Response bool "jsv option"

datatype vault_error = ConfigMissing | SessionFetchFailed

text \<open>
  The validation of the envelope: \<^verbatim>\<open>code\<close> is the number 0, \<^verbatim>\<open>data\<close> is truthy, and
  \<^verbatim>\<open>data.key\<close> and \<^verbatim>\<open>data.token\<close> are strings. Reading \<^verbatim>\<open>.code\<close> of \<^verbatim>\<open>null\<close> throws
  inside the \<^verbatim>\<open>try\<close>, which fails the call like an invalid envelope.
\<close>

definition envelope_session :: "jsv \<Rightarrow> (string \<times> string) option" where
  "envelope_session responseData =
     (if responseData = JNull then None
      else if responseData = JUndefined then None
      else if js_get responseData ''code'' = JNum 0 then
        (if falsy (js_get responseData ''data'') then None
         else (case js_get (js_get responseData ''data'') ''key'' of
                 JStr k \<Rightarrow>
                   (case js_get (js_get responseData ''data'') ''token'' of
                      JStr t \<Rightarrow> Some (k, t)
                    | _ \<Rightarrow> None)
               | _ \<Rightarrow> None))
      else None)"

text \<open>The \<^verbatim>\<open>catch\<close> block of \<^verbatim>\<open>_fetchNewSession\<close>, and its success path.\<close>

definition clear_session :: "vault \<Rightarrow> vault" where
  "clear_session v = v \<lparr> sessionKey := None, sessionToken := None, expiresAt := 0 \<rparr>"

definition store_session :: "string \<times> string \<Rightarrow> int \<Rightarrow> vault \<Rightarrow> vault" where
  "store_session kt now v =
     v \<lparr> sessionKey := Some (fst kt), sessionToken := Some (snd kt),
         expiresAt := now + KEY_LIFESPAN_MS \<rparr>"

text \<open>
  \<^verbatim>\<open>_fetchNewSession\<close>, run to completion: the error it throws (if any) and the state
  it leaves. A missing configuration throws before the \<^verbatim>\<open>try\<close> and touches nothing;
  every failure inside the \<^verbatim>\<open>try\<close> clears the session before it is rethrown.
  \<^verbatim>\<open>now\<close> is the clock when the new session is stored.
\<close>

definition fetchNewSession ::
  "bool \<Rightarrow> fetch_outcome \<Rightarrow> int \<Rightarrow> vault \<Rightarrow> vault_error option \<times> vault" where
  "fetchNewSession config_ok outcome now v =
     (if \<not> config_ok then (Some ConfigMissing, v)
      else (case outcome of
              NetworkError \<Rightarrow> (Some SessionFetchFailed, clear_session v)
            | Response ok body \<Rightarrow>
                if \<not> ok then (Some SessionFetchFailed, clear_session v)
                else (case body of
                        None \<Rightarrow> (Some SessionFetchFailed, clear_session v)
                      | Some responseData \<Rightarrow>
                          (case envelope_session responseData of
                             None \<Rightarrow> (Some SessionFetchFailed, clear_session v)
                           | Some kt \<Rightarrow> (None, store_session kt now v)))))"

text \<open>
  The guard of \<^verbatim>\<open>_checkAndRefreshToken\<close>:
  \<^verbatim>\<open>!sessionKey || Date.now() < expiresAt - REFRESH_BUFFER_MS || isRefreshing\<close>.
\<close>

definition refresh_not_needed :: "vault \<Rightarrow> int \<Rightarrow> bool" where
  "refresh_not_needed v now =
     (case sessionKey v of
        None \<Rightarrow> True
      | Some k \<Rightarrow>
          if k = [] then True
          else if now < expiresAt v - REFRESH_BUFFER_MS then True
          else isRefreshing v)"

text \<open>
  \<^verbatim>\<open>_checkAndRefreshToken\<close> with nothing interleaved: the flag is set, the fetch runs,
  its error is swallowed, and \<^verbatim>\<open>finally\<close> releases the flag.
\<close>

definition checkAndRefreshToken :: "bool \<Rightarrow> fetch_outcome \<Rightarrow> int \<Rightarrow> int \<Rightarrow> vault \<Rightarrow> vault" where
  "checkAndRefreshToken config_ok outcome now now' v =
     (if refresh_not_needed v now then v
      else (snd (fetchNewSession config_ok outcome now' (v \<lparr> isRefreshing := True \<rparr>)))
             \<lparr> isRefreshing := False \<rparr>)"

text \<open>\<^verbatim>\<open>initialize\<close> returns the promise of \<^verbatim>\<open>_fetchNewSession\<close>: its error propagates.\<close>

definition vault_initialize ::
  "bool \<Rightarrow> fetch_outcome \<Rightarrow> int \<Rightarrow> vault \<Rightarrow> vault_error option \<times> vault" where
  "vault_initialize config_ok outcome now v = fetchNewSession config_ok outcome now v"

text \<open>\<^verbatim>\<open>getCurrentKey\<close>: the key it resolves to, and the state afterwards.\<close>

definition getCurrentKey ::
  "bool \<Rightarrow> fetch_outcome \<Rightarrow> int \<Rightarrow> int \<Rightarrow> vault \<Rightarrow> string option \<times> vault" where
  "getCurrentKey config_ok outcome now now' v =
     (sessionKey (checkAndRefreshToken config_ok outcome now now' v),
      checkAndRefreshToken config_ok outcome now now' v)"

definition getCurrentToken :: "vault \<Rightarrow> string option" where
  "getCurrentToken v = sessionToken v"

text \<open>A well-formed envelope of the init endpoint, and the vault after initialising with it at time 0.\<close>

definition good_envelope :: "string \<Rightarrow> string \<Rightarrow> jsv" where
  "good_envelope k t =
     JObj [(''code'', JNum 0), (''data'', JObj [(''key'', JStr k), (''token'', JStr t)]),
           (''msg'', JStr ''ok'')]"

definition fresh_vault :: vault where
  "fresh_vault =
     snd (vault_initialize True (Response True (Some (good_envelope ''k1'' ''t1''))) 0 initial_vault)"

section \<open>Session Vault: interleaved refreshes\<close>

text \<open>
  The runtime is single-threaded and cooperative: code between two \<^verbatim>\<open>await\<close>s runs
  without interruption, and any other call may run while a call is suspended. A call
  of \<^verbatim>\<open>getCurrentKey\<close> that passes the guard becomes a pending refresh, suspended at
  one of three points: at \<^verbatim>\<open>await fetch(...)\<close>, at \<^verbatim>\<open>await response.json()\<close>, or at the
  \<^verbatim>\<open>await _fetchNewSession()\<close> of \<^verbatim>\<open>_checkAndRefreshToken\<close> once the inner call has
  settled (its \<^verbatim>\<open>catch\<close> and \<^verbatim>\<open>finally\<close> still to run).
\<close>

datatype phase = AwaitFetch | AwaitJson | Unwinding

record sys =
  vault_of :: vault
  tasks :: "phase list"
  fetches :: nat

text \<open>
  The events of the system: a call of \<^verbatim>\<open>getCurrentKey\<close> (whether the configuration
  is present, and the clock), the settling of the \<^verbatim>\<open>fetch\<close> of pending refresh \<open>i\<close>
  (\<^verbatim>\<open>None\<close>: rejected; otherwise the response's \<^verbatim>\<open>ok\<close>), the settling of its
  \<^verbatim>\<open>response.json()\<close> (\<^verbatim>\<open>None\<close>: rejected; otherwise the parsed body, and the clock),
  and the resumption of \<^verbatim>\<open>_checkAndRefreshToken\<close>.
\<close>

datatype event =
    CallGetCurrentKey bool int
  | FetchSettles nat "bool option"
  | JsonSettles nat "jsv option" int
  | Resume nat

text \<open>
  One uninterrupted run of code. \<^verbatim>\<open>None\<close>: the event cannot happen in this state
  (there is no pending refresh \<open>i\<close> at that suspension point). \<open>fetches\<close> counts the
  POSTs issued.
\<close>

fun step :: "sys \<Rightarrow> event \<Rightarrow> sys option" where
  "step s (CallGetCurrentKey config_ok now) =
     Some (if refresh_not_needed (vault_of s) now then s
           else s \<lparr> vault_of := (vault_of s) \<lparr> isRefreshing := True \<rparr>,
                    tasks := tasks s @ [if config_ok then AwaitFetch else Unwinding],
                    fetches := fetches s + (if config_ok then 1 else 0) \<rparr>)"
| "step s (FetchSettles i r) =
     (if i < length (tasks s) \<and> tasks s ! i = AwaitFetch then
        Some (case r of
                Some True \<Rightarrow> s \<lparr> tasks := (tasks s)[i := AwaitJson] \<rparr>
              | _ \<Rightarrow> s \<lparr> vault_of := clear_session (vault_of s),
                          tasks := (tasks s)[i := Unwinding] \<rparr>)
      else None)"
| "step s (JsonSettles i body now) =
     (if i < length (tasks s) \<and> tasks s ! i = AwaitJson then
        Some (case body of
                None \<Rightarrow> s \<lparr> vault_of := clear_session (vault_of s),
                             tasks := (tasks s)[i := Unwinding] \<rparr>
              | Some responseData \<Rightarrow>
                  (case envelope_session responseData of
                     None \<Rightarrow> s \<lparr> vault_of := clear_session (vault_of s),
                                  tasks := (tasks s)[i := Unwinding] \<rparr>
                   | Some kt \<Rightarrow> s \<lparr> vault_of := store_session kt now (vault_of s),
                                     tasks := (tasks s)[i := Unwinding] \<rparr>))
      else None)"
| "step s (Resume i) =
     (if i < length (tasks s) \<and> tasks s ! i = Unwinding then
        Some (s \<lparr> vault_of := (vault_of s) \<lparr> isRefreshing := False \<rparr>,
                 tasks := take i (tasks s) @ drop (Suc i) (tasks s) \<rparr>)
      else None)"

fun run :: "sys \<Rightarrow> event list \<Rightarrow> sys option" where
  "run s [] = Some s"
| "run s (e # es) = (case step s e of None \<Rightarrow> None | Some s' \<Rightarrow> run s' es)"

text \<open>The refreshes whose request is in flight (sent, body not yet read).\<close>

definition in_flight :: "sys \<Rightarrow> nat" where
  "in_flight s = length (filter (\<lambda>p. p = AwaitFetch \<or> p = AwaitJson) (tasks s))"

text \<open>The flag is set exactly while one refresh is pending, and no second one exists.\<close>

definition single_flight :: "sys \<Rightarrow> bool" where
  "single_flight s \<longleftrightarrow> length (tasks s) \<le> 1 \<and> (isRefreshing (vault_of s) \<longleftrightarrow> tasks s \<noteq> [])"

text \<open>The events that drive the only pending refresh to its end, for given outcomes.\<close>

fun completion :: "phase \<Rightarrow> bool option \<Rightarrow> jsv option \<Rightarrow> int \<Rightarrow> event list" where
  "completion AwaitFetch r body now =
     (if r = Some True then [FetchSettles 0 r, JsonSettles 0 body now, Resume 0]
      else [FetchSettles 0 r, Resume 0])"
| "completion AwaitJson r body now = [JsonSettles 0 body now, Resume 0]"
| "completion Unwinding r body now = [Resume 0]"

definition idle :: "vault \<Rightarrow> sys" where
  "idle v = \<lparr> vault_of = v, tasks = [], fetches = 0 \<rparr>"

text \<open>Ten calls of \<^verbatim>\<open>getCurrentKey\<close> inside the refresh window of \<open>fresh_vault\<close>.\<close>

definition ten_calls :: "event list" where
  "ten_calls = map (\<lambda>n. CallGetCurrentKey True (1700000 + n)) [0, 1, 2, 3, 4, 5, 6, 7, 8, 9]"

text \<open>
  The run-to-completion reading of \<^verbatim>\<open>_checkAndRefreshToken\<close> is the interleaved one
  with nothing in between: the call, then the events of the fetch's outcome.
\<close>

fun outcome_events :: "fetch_outcome \<Rightarrow> int \<Rightarrow> event list" where
  "outcome_events NetworkError now = [FetchSettles 0 None, Resume 0]"
| "outcome_events (Response ok body) now =
     (if ok then [FetchSettles 0 (Some True), JsonSettles 0 body now, Resume 0]
      else [FetchSettles 0 (Some False), Resume 0])"

section \<open>Double-precision numbers\<close>

text \<open>
  The trajectory analysis computes with JavaScript numbers and compares the results
  with thresholds, so its outcome depends on the rounding of each operation. A number
  is an IEEE 754 binary64 value: a finite one is given by the real it denotes, and
  there are the two infinities and \<^verbatim>\<open>NaN\<close>. The two zeros are not told apart (the analysis
  never divides by a zero and its comparisons do not distinguish them).
\<close>

datatype double = Fin real | PInf | NInf | NaN

text \<open>For \<open>x > 0\<close>, the exponent \<open>e\<close> with \<open>2 ^ e \<le> x < 2 ^ (e + 1)\<close>.\<close>

function binade :: "real \<Rightarrow> int" where
  "binade x =
     (if x \<le> 0 then 0
      else if 2 \<le> x then binade (x / 2) + 1
      else if x < 1 then binade (x * 2) - 1
      else 0)"
  by pat_completeness auto
termination
proof (relation "measure (\<lambda>x. if 2 \<le> x then nat \<lceil>log 2 x\<rceil>
                                 else if 0 < x \<and> x < 1 then nat \<lceil>- log 2 x\<rceil> + 1 else 0)")
  show "wf (measure (\<lambda>x. if 2 \<le> x then nat \<lceil>log 2 x\<rceil>
                                 else if 0 < x \<and> x < 1 then nat \<lceil>- log 2 x\<rceil> + 1 else 0))"
    by simp
next
  fix x :: real
  assume a: "\<not> x \<le> 0" "2 \<le> x"
  have l: "log 2 (x / 2) = log 2 x - 1"
    using a by (simp add: log_divide)
  have p: "1 \<le> log 2 x"
    using a by (simp add: le_log_iff)
  show "(x / 2, x) \<in> measure (\<lambda>x. if 2 \<le> x then nat \<lceil>log 2 x\<rceil>
                                 else if 0 < x \<and> x < 1 then nat \<lceil>- log 2 x\<rceil> + 1 else 0)"
    using a l p by (auto simp: ceiling_diff_one)
next
  fix x :: real
  assume a: "\<not> x \<le> 0" "\<not> 2 \<le> x" "x < 1"
  have l: "log 2 (x * 2) = log 2 x + 1"
    using a by (simp add: log_mult)
  have p: "log 2 x < 0"
    using a by simp
  show "(x * 2, x) \<in> measure (\<lambda>x. if 2 \<le> x then nat \<lceil>log 2 x\<rceil>
                                 else if 0 < x \<and> x < 1 then nat \<lceil>- log 2 x\<rceil> + 1 else 0)"
    using a l p by auto
qed

declare binade.simps [simp del]

text \<open>
  The distance between neighbouring doubles around \<open>x\<close>: 53 significant bits, and the
  subnormal spacing \<open>2 ^ -1074\<close> below the smallest normal binade.
\<close>

definition quantum :: "real \<Rightarrow> real" where
  "quantum x = 2 powi (max (binade \<bar>x\<bar> - 52) (- 1074))"

text \<open>To the nearest integer, a tie to the even one.\<close>

definition round_half_even :: "real \<Rightarrow> int" where
  "round_half_even r =
     (if r - of_int \<lfloor>r\<rfloor> < 1 / 2 then \<lfloor>r\<rfloor>
      else if 1 / 2 < r - of_int \<lfloor>r\<rfloor> then \<lfloor>r\<rfloor> + 1
      else if even \<lfloor>r\<rfloor> then \<lfloor>r\<rfloor>
      else \<lfloor>r\<rfloor> + 1)"

text \<open>
  Rounding of a real result to the nearest double, ties to even (the rounding of every
  arithmetic operation and of every decimal literal); a result that rounds to
  \<open>2 ^ 1024\<close> or beyond overflows to an infinity.
\<close>

definition fl :: "real \<Rightarrow> double" where
  "fl x =
     (if 2 ^ 1024 \<le> \<bar>of_int (round_half_even (x / quantum x)) * quantum x\<bar>
      then (if 0 < x then PInf else NInf)
      else Fin (of_int (round_half_even (x / quantum x)) * quantum x))"

fun d_neg :: "double \<Rightarrow> double" where
  "d_neg (Fin x) = Fin (- x)"
| "d_neg PInf = NInf"
| "d_neg NInf = PInf"
| "d_neg NaN = NaN"

fun d_add :: "double \<Rightarrow> double \<Rightarrow> double" where
  "d_add (Fin x) (Fin y) = fl (x + y)"
| "d_add NaN b = NaN"
| "d_add a NaN = NaN"
| "d_add PInf NInf = NaN"
| "d_add NInf PInf = NaN"
| "d_add PInf b = PInf"
| "d_add NInf b = NInf"
| "d_add a PInf = PInf"
| "d_add a NInf = NInf"

definition d_sub :: "double \<Rightarrow> double \<Rightarrow> double" where
  "d_sub a b = d_add a (d_neg b)"

fun d_mul :: "double \<Rightarrow> double \<Rightarrow> double" where
  "d_mul (Fin x) (Fin y) = fl (x * y)"
| "d_mul NaN b = NaN"
| "d_mul a NaN = NaN"
| "d_mul (Fin x) PInf = (if x = 0 then NaN else if 0 < x then PInf else NInf)"
| "d_mul (Fin x) NInf = (if x = 0 then NaN else if 0 < x then NInf else PInf)"
| "d_mul PInf (Fin y) = (if y = 0 then NaN else if 0 < y then PInf else NInf)"
| "d_mul NInf (Fin y) = (if y = 0 then NaN else if 0 < y then NInf else PInf)"
| "d_mul PInf PInf = PInf"
| "d_mul PInf NInf = NInf"
| "d_mul NInf PInf = NInf"
| "d_mul NInf NInf = PInf"

text \<open>Division; a finite number over a zero is an infinity of the dividend's sign.\<close>

fun d_div :: "double \<Rightarrow> double \<Rightarrow> double" where
  "d_div (Fin x) (Fin y) =
     (if y = 0 then (if x = 0 then NaN else if 0 < x then PInf else NInf) else fl (x / y))"
| "d_div NaN b = NaN"
| "d_div a NaN = NaN"
| "d_div (Fin x) PInf = Fin 0"
| "d_div (Fin x) NInf = Fin 0"
| "d_div PInf (Fin y) = (if 0 \<le> y then PInf else NInf)"
| "d_div NInf (Fin y) = (if 0 \<le> y then NInf else PInf)"
| "d_div a b = NaN"

fun d_abs :: "double \<Rightarrow> double" where
  "d_abs (Fin x) = Fin \<bar>x\<bar>"
| "d_abs PInf = PInf"
| "d_abs NInf = PInf"
| "d_abs NaN = NaN"

text \<open>The comparison \<^verbatim>\<open>a < b\<close>: false as soon as one side is \<^verbatim>\<open>NaN\<close>.\<close>

fun d_lt :: "double \<Rightarrow> double \<Rightarrow> bool" where
  "d_lt (Fin x) (Fin y) = (x < y)"
| "d_lt NaN b = False"
| "d_lt a NaN = False"
| "d_lt a NInf = False"
| "d_lt PInf b = False"
| "d_lt NInf b = True"
| "d_lt a PInf = True"

text \<open>\<^verbatim>\<open>Math.min\<close> of two numbers: \<^verbatim>\<open>NaN\<close> if one of them is.\<close>

fun Math_min :: "double \<Rightarrow> double \<Rightarrow> double" where
  "Math_min NaN b = NaN"
| "Math_min a NaN = NaN"
| "Math_min a b = (if d_lt b a then b else a)"

text \<open>
  \<^verbatim>\<open>Math.pow(x, 2)\<close> and \<^verbatim>\<open>Math.sqrt(x)\<close> are implementation-approximated: the language
  fixes their results at special values only. The analysis takes them as parameters.
  These are the correctly rounded ones.
\<close>

definition square_rounded :: "double \<Rightarrow> double" where
  "square_rounded x = d_mul x x"

fun sqrt_rounded :: "double \<Rightarrow> double" where
  "sqrt_rounded (Fin x) = (if x < 0 then NaN else fl (sqrt x))"
| "sqrt_rounded PInf = PInf"
| "sqrt_rounded NInf = NaN"
| "sqrt_rounded NaN = NaN"

text \<open>
  The correctly rounded square root by integer arithmetic: the integer square root by
  bisection, and the nearest multiple of the quantum of the root (the root of \<open>x\<close> lies
  in the binade \<open>binade x div 2\<close>). It is proved equal to \<open>fl (sqrt x)\<close> and is how
  \<open>sqrt_rounded\<close> is evaluated.
\<close>

function sqrt_between :: "int \<Rightarrow> int \<Rightarrow> int \<Rightarrow> int" where
  "sqrt_between lo hi n =
     (if hi - lo \<le> 1 then lo
      else if ((lo + hi) div 2) * ((lo + hi) div 2) \<le> n then sqrt_between ((lo + hi) div 2) hi n
      else sqrt_between lo ((lo + hi) div 2) n)"
  by pat_completeness auto
termination
  by (relation "measure (\<lambda>(lo, hi, n). nat (hi - lo))") auto

declare sqrt_between.simps [simp del]

definition floor_sqrt :: "int \<Rightarrow> int" where
  "floor_sqrt n = sqrt_between 0 (n + 1) n"

definition sqrt_nearest :: "real \<Rightarrow> double" where
  "sqrt_nearest x =
     (let q = 2 powi (max (binade x div 2 - 52) (- 1074));
          y = x / (q * q);
          k = floor_sqrt \<lfloor>y\<rfloor>;
          m = (if y < of_int (k * k + k) + 1 / 4 then k
               else if of_int (k * k + k) + 1 / 4 < y then k + 1
               else if even k then k
               else k + 1)
      in if 2 ^ 1024 \<le> \<bar>of_int m * q\<bar> then PInf else Fin (of_int m * q))"

section \<open>Data Loom: trajectory analysis\<close>

text \<open>
  A trajectory sample \<^verbatim>\<open>[x, y, t]\<close>; each component is the real value of a finite
  double (the listener stores \<^verbatim>\<open>clientX\<close>, \<^verbatim>\<open>clientY\<close> and \<^verbatim>\<open>Date.now()\<close>).
\<close>

type_synonym point = "real \<times> real \<times> real"

definition px :: "point \<Rightarrow> double" where
  "px p = Fin (fst p)"

definition py :: "point \<Rightarrow> double" where
  "py p = Fin (fst (snd p))"

definition pt :: "point \<Rightarrow> double" where
  "pt p = Fin (snd (snd p))"

text \<open>The result \<^verbatim>\<open>{regularity_score, is_straight_line}\<close> of the analysis, in doubles.\<close>

record double_analysis =
  regularity_score_d :: double
  is_straight_line_d :: bool

text \<open>\<^verbatim>\<open>trajectory.slice(1).map((p, i) => p[2] - trajectory[i][2])\<close>.\<close>

definition intervals :: "point list \<Rightarrow> double list" where
  "intervals trajectory = map (\<lambda>(p, q). d_sub (pt p) (pt q)) (zip (tl trajectory) trajectory)"

text \<open>\<^verbatim>\<open>xs.reduce((a, b) => a + b, 0)\<close>, from the accumulator \<open>a\<close>.\<close>

fun reduce_add :: "double \<Rightarrow> double list \<Rightarrow> double" where
  "reduce_add a [] = a"
| "reduce_add a (b # bs) = reduce_add (d_add a b) bs"

definition avgInterval :: "double list \<Rightarrow> double" where
  "avgInterval xs = d_div (reduce_add (Fin 0) xs) (Fin (real (length xs)))"

definition stdDevInterval :: "(double \<Rightarrow> double) \<Rightarrow> (double \<Rightarrow> double) \<Rightarrow> double list \<Rightarrow> double" where
  "stdDevInterval Math_pow2 Math_sqrt xs =
     Math_sqrt (d_div (reduce_add (Fin 0) (map (\<lambda>x. Math_pow2 (d_sub x (avgInterval xs))) xs))
                      (Fin (real (length xs))))"

text \<open>
  One segment of the slope loop: \<^verbatim>\<open>dx\<close>, \<^verbatim>\<open>dy\<close>, the test \<^verbatim>\<open>dx === 0 && dy === 0\<close>,
  the slope \<^verbatim>\<open>(dx === 0) ? Infinity : dy / dx\<close>, and the test
  \<^verbatim>\<open>Math.abs(slope - lastSlope) < 0.1\<close>.
\<close>

definition seg_dx :: "point \<Rightarrow> point \<Rightarrow> double" where
  "seg_dx p q = d_sub (px q) (px p)"

definition seg_dy :: "point \<Rightarrow> point \<Rightarrow> double" where
  "seg_dy p q = d_sub (py q) (py p)"

definition stationary :: "point \<Rightarrow> point \<Rightarrow> bool" where
  "stationary p q \<longleftrightarrow> seg_dx p q = Fin 0 \<and> seg_dy p q = Fin 0"

definition segment_slope :: "point \<Rightarrow> point \<Rightarrow> double" where
  "segment_slope p q = (if seg_dx p q = Fin 0 then PInf else d_div (seg_dy p q) (seg_dx p q))"

definition slope_close :: "double \<Rightarrow> double \<Rightarrow> bool" where
  "slope_close slope lastSlope = d_lt (d_abs (d_sub slope lastSlope)) (fl (1 / 10))"

text \<open>
  The slope loop over consecutive samples, with its two variables \<^verbatim>\<open>lastSlope\<close>
  (\<^verbatim>\<open>None\<close> for \<^verbatim>\<open>null\<close>) and \<^verbatim>\<open>consistentSlopes\<close>.
\<close>

fun count_consistent :: "point list \<Rightarrow> double option \<Rightarrow> nat \<Rightarrow> nat" where
  "count_consistent (p # q # rest) lastSlope consistentSlopes =
     (if stationary p q then count_consistent (q # rest) lastSlope consistentSlopes
      else count_consistent (q # rest) (Some (segment_slope p q))
             (case lastSlope of
                None \<Rightarrow> consistentSlopes
              | Some l \<Rightarrow>
                  if slope_close (segment_slope p q) l then consistentSlopes + 1
                  else consistentSlopes))"
| "count_consistent ps lastSlope consistentSlopes = consistentSlopes"

text \<open>
  \<^verbatim>\<open>_analyzeMouseTrajectory\<close>. The score starts at 0, gains \<^verbatim>\<open>0.8\<close> and \<^verbatim>\<open>1.0\<close> by
  double additions, and is clamped by \<^verbatim>\<open>Math.min(regularity_score, 1.0)\<close>.
\<close>

definition timing_score :: "(double \<Rightarrow> double) \<Rightarrow> (double \<Rightarrow> double) \<Rightarrow> point list \<Rightarrow> double" where
  "timing_score Math_pow2 Math_sqrt trajectory =
     (if d_lt (stdDevInterval Math_pow2 Math_sqrt (intervals trajectory)) (Fin 10)
      then d_add (Fin 0) (fl (8 / 10)) else Fin 0)"

definition slopes_consistent :: "point list \<Rightarrow> bool" where
  "slopes_consistent trajectory =
     d_lt (fl (8 / 10))
       (d_div (Fin (real (count_consistent trajectory None 0)))
              (Fin (real (length trajectory - 1))))"

definition analyzeMouseTrajectory ::
  "(double \<Rightarrow> double) \<Rightarrow> (double \<Rightarrow> double) \<Rightarrow> point list \<Rightarrow> double_analysis" where
  "analyzeMouseTrajectory Math_pow2 Math_sqrt trajectory =
     (if length trajectory < 10 then \<lparr> regularity_score_d = Fin 0, is_straight_line_d = False \<rparr>
      else if slopes_consistent trajectory then
        \<lparr> regularity_score_d =
            Math_min (d_add (timing_score Math_pow2 Math_sqrt trajectory) (Fin 1)) (Fin 1),
          is_straight_line_d = True \<rparr>
      else
        \<lparr> regularity_score_d = Math_min (timing_score Math_pow2 Math_sqrt trajectory) (Fin 1),
          is_straight_line_d = False \<rparr>)"

text \<open>Twenty samples on the line \<open>y = x\<close>, one every 100 ms.\<close>

definition line_trajectory :: "point list" where
  "line_trajectory =
     map (\<lambda>i. (i, i, 1700000000000 + 100 * i))
       [0, 1, 2, 3, 4, 5, 6, 7, 8, 9, 10, 11, 12, 13, 14, 15, 16, 17, 18, 19]"

text \<open>
  Eleven samples at whole pixels, one every 100 ms, 10 pixels apart in \<open>x\<close>, rising by
  2 and by 3 pixels in turn: the slopes alternate between 2/10 and 3/10.
\<close>

definition zig_trajectory :: "point list" where
  "zig_trajectory =
     [(0, 0, 1700000000000), (10, 2, 1700000000100), (20, 5, 1700000000200),
      (30, 7, 1700000000300), (40, 10, 1700000000400), (50, 12, 1700000000500),
      (60, 15, 1700000000600), (70, 17, 1700000000700), (80, 20, 1700000000800),
      (90, 22, 1700000000900), (100, 25, 1700000001000)]"

text \<open>
  Eleven samples whose slopes alternate between 2/10 and 4/10, with intervals of 91
  and 109 ms in turn (standard deviation 9), and the same with intervals of 90 and
  110 ms (standard deviation 10).
\<close>

definition steady_trajectory :: "point list" where
  "steady_trajectory =
     [(0, 0, 1700000000000), (10, 2, 1700000000091), (20, 6, 1700000000200),
      (30, 8, 1700000000291), (40, 12, 1700000000400), (50, 14, 1700000000491),
      (60, 18, 1700000000600), (70, 20, 1700000000691), (80, 24, 1700000000800),
      (90, 26, 1700000000891), (100, 30, 1700000001000)]"

definition uneven_trajectory :: "point list" where
  "uneven_trajectory =
     [(0, 0, 1700000000000), (10, 2, 1700000000090), (20, 6, 1700000000200),
      (30, 8, 1700000000290), (40, 12, 1700000000400), (50, 14, 1700000000490),
      (60, 18, 1700000000600), (70, 20, 1700000000690), (80, 24, 1700000000800),
      (90, 26, 1700000000890), (100, 30, 1700000001000)]"

text \<open>
  Ten samples whose slopes alternate between 2/10 and 4/10, with intervals of 129, 129,
  130, 119, 157, 139, 137, 127 and 133 ms: their mean is 400/3 and their variance
  exactly 100.
\<close>

definition drift_trajectory :: "point list" where
  "drift_trajectory =
     [(0, 0, 1700000000000), (10, 2, 1700000000129), (20, 6, 1700000000258),
      (30, 8, 1700000000388), (40, 12, 1700000000507), (50, 14, 1700000000664),
      (60, 18, 1700000000803), (70, 20, 1700000000940), (80, 24, 1700000001067),
      (90, 26, 1700000001200)]"

text \<open>
  The slope test read in exact arithmetic, as a sentence about real numbers: the exact
  slopes of the segments that move (\<open>None\<close> for a vertical one), the number of adjacent
  pairs of them that differ by less than 1/10, and whether that number exceeds 0.8 of
  the \<open>n - 1\<close> segments.
\<close>

definition exact_slopes :: "point list \<Rightarrow> real option list" where
  "exact_slopes trajectory =
     map (\<lambda>(p, q). if fst q - fst p = 0 then None
                     else Some ((fst (snd q) - fst (snd p)) / (fst q - fst p)))
       (filter (\<lambda>(p, q). \<not> (fst q - fst p = 0 \<and> fst (snd q) - fst (snd p) = 0))
          (zip trajectory (tl trajectory)))"

fun exact_close :: "real option \<Rightarrow> real option \<Rightarrow> bool" where
  "exact_close (Some a) (Some b) = (\<bar>b - a\<bar> < 1 / 10)"
| "exact_close a b = False"

definition exact_pairs :: "point list \<Rightarrow> nat" where
  "exact_pairs trajectory =
     length (filter (\<lambda>(earlier, later). exact_close earlier later)
               (zip (exact_slopes trajectory) (tl (exact_slopes trajectory))))"

definition exact_straight :: "point list \<Rightarrow> bool" where
  "exact_straight trajectory \<longleftrightarrow>
     real (exact_pairs trajectory) > 8 / 10 * real (length trajectory - 1)"

text \<open>
  The timing test read in exact arithmetic: the intervals, their mean and their
  population standard deviation as real numbers.
\<close>

definition exact_intervals :: "point list \<Rightarrow> real list" where
  "exact_intervals trajectory =
     map (\<lambda>(p, q). snd (snd p) - snd (snd q)) (zip (tl trajectory) trajectory)"

definition exact_mean :: "real list \<Rightarrow> real" where
  "exact_mean xs = sum_list xs / real (length xs)"

definition exact_deviation :: "real list \<Rightarrow> real" where
  "exact_deviation xs = sqrt (sum_list (map (\<lambda>x. (x - exact_mean xs)\<^sup>2) xs) / real (length xs))"

section \<open>Data Loom: mouse tracking\<close>

text \<open>\<^verbatim>\<open>lastMousePosition\<close> (\<^verbatim>\<open>{x, y, t, c}\<close>) and the buffer \<^verbatim>\<open>mouseTrajectory\<close>.\<close>

record mouse_position =
  mx :: real
  my :: real
  mt :: int
  mc :: nat

record mouse_state =
  lastMousePosition :: mouse_position
  mouseTrajectory :: "point list"

definition initial_mouse :: mouse_state where
  "initial_mouse = \<lparr> lastMousePosition = \<lparr> mx = 0, my = 0, mt = 0, mc = 0 \<rparr>, mouseTrajectory = [] \<rparr>"

text \<open>
  The \<^verbatim>\<open>mousemove\<close> listener. \<^verbatim>\<open>Date.now()\<close> is read three times: in the test, for
  the new position, and for the sample.
\<close>

definition on_mousemove :: "real \<Rightarrow> real \<Rightarrow> int \<Rightarrow> int \<Rightarrow> int \<Rightarrow> mouse_state \<Rightarrow> mouse_state" where
  "on_mousemove clientX clientY now1 now2 now3 s =
     (if now1 - mt (lastMousePosition s) > 100 then
        (if length (mouseTrajectory s) < 50 then
           s \<lparr> lastMousePosition :=
                 \<lparr> mx = clientX, my = clientY, mt = now2, mc = mc (lastMousePosition s) \<rparr>,
               mouseTrajectory := mouseTrajectory s @ [(clientX, clientY, real_of_int now3)] \<rparr>
         else
           s \<lparr> lastMousePosition :=
                 \<lparr> mx = clientX, my = clientY, mt = now2, mc = mc (lastMousePosition s) \<rparr> \<rparr>)
      else s)"

definition on_click :: "mouse_state \<Rightarrow> mouse_state" where
  "on_click s = s \<lparr> lastMousePosition := (lastMousePosition s) \<lparr> mc := mc (lastMousePosition s) + 1 \<rparr> \<rparr>"

text \<open>
  \<^verbatim>\<open>_getMouseTrajectory\<close>: the probe's result \<^verbatim>\<open>{points, analysis}\<close> and the state it
  leaves.
\<close>

record probed_trajectory =
  points_d :: "point list"
  analysis_d :: double_analysis

definition getMouseTrajectory ::
  "(double \<Rightarrow> double) \<Rightarrow> (double \<Rightarrow> double) \<Rightarrow> mouse_state \<Rightarrow> probed_trajectory \<times> mouse_state" where
  "getMouseTrajectory Math_pow2 Math_sqrt s =
     (\<lparr> points_d = mouseTrajectory s,
        analysis_d = analyzeMouseTrajectory Math_pow2 Math_sqrt (mouseTrajectory s) \<rparr>,
      s \<lparr> mouseTrajectory := [] \<rparr>)"

text \<open>The events of the tracker, and a run of them.\<close>

datatype mouse_event = MouseMove real real int int int | Click | TrajectoryProbe

fun mouse_step ::
  "(double \<Rightarrow> double) \<Rightarrow> (double \<Rightarrow> double) \<Rightarrow> mouse_state \<Rightarrow> mouse_event \<Rightarrow> mouse_state" where
  "mouse_step Math_pow2 Math_sqrt s (MouseMove clientX clientY now1 now2 now3) =
     on_mousemove clientX clientY now1 now2 now3 s"
| "mouse_step Math_pow2 Math_sqrt s Click = on_click s"
| "mouse_step Math_pow2 Math_sqrt s TrajectoryProbe = snd (getMouseTrajectory Math_pow2 Math_sqrt s)"

text \<open>An event whose three clock readings agree (the listener ran within one tick).\<close>

fun one_reading :: "mouse_event \<Rightarrow> bool" where
  "one_reading (MouseMove clientX clientY now1 now2 now3) = (now1 = now2 \<and> now2 = now3)"
| "one_reading e = True"

text \<open>Consecutive samples are more than 100 ms apart.\<close>

fun spaced :: "point list \<Rightarrow> bool" where
  "spaced (p # q # rest) = (snd (snd q) - snd (snd p) > 100 \<and> spaced (q # rest))"
| "spaced ps = True"

text \<open>
  The buffer is spaced and its last sample is not later than the stored time: kept by
  every event whose clock readings agree.
\<close>

definition throttled :: "mouse_state \<Rightarrow> bool" where
  "throttled s \<longleftrightarrow>
     spaced (mouseTrajectory s) \<and>
     (mouseTrajectory s = [] \<or>
      snd (snd (last (mouseTrajectory s))) \<le> real_of_int (mt (lastMousePosition s)))"

text \<open>
  Fifty moves 200 ms apart, which fill the buffer; then a move that finds it full, and
  a run of the probe.
\<close>

definition fill_events :: "mouse_event list" where
  "fill_events =
     map (\<lambda>i. MouseMove 0 0 (1000 + 200 * int i) (1000 + 200 * int i) (1000 + 200 * int i)) [0..<50]"

definition full_then_drained :: "mouse_event list" where
  "full_then_drained = fill_events @ [MouseMove 0 0 11000 11000 11000, TrajectoryProbe]"

section \<open>Properties of the Risk Matrix\<close>

lemma join7:
  "join sep [a, b, c, d, e, f, g] =
     a @ sep @ b @ sep @ c @ sep @ d @ sep @ e @ sep @ f @ sep @ g"
  by simp

lemma show_int_timestamp: "show_int 1700000000000 = ''1700000000000''"
  by code_simp

lemma show_int_zero: "show_int 0 = ''0''"
  by code_simp

lemma toUpperCase_GET: "toUpperCase ''GET'' = ''GET''"
  by code_simp

lemma serializedParams_GET_empty: "serializedParams ''GET'' (JObj []) = []"
  by (simp add: serializedParams_def serializeGetParams_def Object_keys_def)

lemma ping_bag_score: "calculateRiskScore ping_bag w = 0"
  by (simp add: calculateRiskScore_def score_sum_def anomaly_term_def trajectory_term_def
      click_term_def performance_term_def error_term_def errorCount_def string_values_def
      sentinel_of_def fingerprintErrors_def trajectory_points_def trajectory_straight_def
      trajectory_regular_def clickCount_def ping_bag_def no_probes_def Math_round_def)

lemma ping_bag_fingerprint:
  "rawFingerprintJson ping_bag =
     ''{\"platform\":\"N/A\",\"renderer\":\"N/A\",\"audio\":\"err_no_offline_context\"}''"
  by (simp add: rawFingerprintJson_def stringify_object_def fp_platform_def fp_renderer_def
      fp_audio_def ping_bag_def no_probes_def json_quote_def json_escape_char_def)

text \<open>
  C1. The signed record is the seven components timestamp, nonce, uppercased method,
  path, serialised parameters, risk score and raw fingerprint JSON, joined by the
  delimiter \<^verbatim>\<open>||\<close>, and with a non-empty session key it is this record that is handed
  to HMAC (with no key, or the empty string as key, the attempt throws before it).
  For GET \<^verbatim>\<open>/api/ping\<close> with empty parameters, timestamp 1700000000000, nonce suffix
  \<^verbatim>\<open>abcd1234\<close> and a bag that scores 0 and has the fingerprint of the example, the
  serialised parameters are the empty string and the record is the string of the
  example.
\<close>

theorem C1_signing_record:
  "(dataToSign d w realUrl params method ts rnd =
     show_int ts @ ''||'' @ make_nonce ts rnd @ ''||'' @ toUpperCase method @ ''||'' @ realUrl
       @ ''||'' @ serializedParams (toUpperCase method) params
       @ ''||'' @ show_int (calculateRiskScore d w) @ ''||'' @ rawFingerprintJson d)
 \<and> (assessAndSign hmacSHA256 aesEncrypt (Some (c # cs)) tok d w realUrl params method ts rnd =
     Inr \<lparr> signature = hmacSHA256 (dataToSign d w realUrl params method ts rnd) (c # cs),
           timestamp = ts,
           nonce = make_nonce ts rnd,
           riskScore = calculateRiskScore d w,
           token = tok,
           fingerprintJsonForSign = aesEncrypt (rawFingerprintJson d) (c # cs) \<rparr>)
 \<and> (assessAndSign hmacSHA256 aesEncrypt None tok d w realUrl params method ts rnd =
     Inl SessionKeyUnavailable)
 \<and> (assessAndSign hmacSHA256 aesEncrypt (Some []) tok d w realUrl params method ts rnd =
     Inl SessionKeyUnavailable)
 \<and> (serializedParams (toUpperCase ''GET'') (JObj []) = [])
 \<and> (calculateRiskScore ping_bag w = 0)
 \<and> (make_nonce 1700000000000 ''abcd1234'' = ''1700000000000-abcd1234'')
 \<and> (rawFingerprintJson ping_bag =
     ''{\"platform\":\"N/A\",\"renderer\":\"N/A\",\"audio\":\"err_no_offline_context\"}'')
 \<and> (dataToSign ping_bag w ''/api/ping'' (JObj []) ''GET'' 1700000000000 ''abcd1234'' =
     ''1700000000000||1700000000000-abcd1234||GET||/api/ping||||0||{\"platform\":\"N/A\",\"renderer\":\"N/A\",\"audio\":\"err_no_offline_context\"}'')"
proof (intro conjI)
  show "dataToSign d w realUrl params method ts rnd =
     show_int ts @ ''||'' @ make_nonce ts rnd @ ''||'' @ toUpperCase method @ ''||'' @ realUrl
       @ ''||'' @ serializedParams (toUpperCase method) params
       @ ''||'' @ show_int (calculateRiskScore d w) @ ''||'' @ rawFingerprintJson d"
    unfolding dataToSign_def join7 by (rule refl)
  show "assessAndSign hmacSHA256 aesEncrypt (Some (c # cs)) tok d w realUrl params method ts rnd =
     Inr \<lparr> signature = hmacSHA256 (dataToSign d w realUrl params method ts rnd) (c # cs),
           timestamp = ts,
           nonce = make_nonce ts rnd,
           riskScore = calculateRiskScore d w,
           token = tok,
           fingerprintJsonForSign = aesEncrypt (rawFingerprintJson d) (c # cs) \<rparr>"
    by (simp add: assessAndSign_def)
  show "assessAndSign hmacSHA256 aesEncrypt None tok d w realUrl params method ts rnd =
     Inl SessionKeyUnavailable"
    by (simp add: assessAndSign_def)
  show "assessAndSign hmacSHA256 aesEncrypt (Some []) tok d w realUrl params method ts rnd =
     Inl SessionKeyUnavailable"
    by (simp add: assessAndSign_def)
  show "serializedParams (toUpperCase ''GET'') (JObj []) = []"
    by (simp only: toUpperCase_GET serializedParams_GET_empty)
  show "calculateRiskScore ping_bag w = 0"
    by (rule ping_bag_score)
  show "make_nonce 1700000000000 ''abcd1234'' = ''1700000000000-abcd1234''"
    unfolding make_nonce_def show_int_timestamp by simp
  show "rawFingerprintJson ping_bag =
     ''{\"platform\":\"N/A\",\"renderer\":\"N/A\",\"audio\":\"err_no_offline_context\"}''"
    by (rule ping_bag_fingerprint)
  show "dataToSign ping_bag w ''/api/ping'' (JObj []) ''GET'' 1700000000000 ''abcd1234'' =
     ''1700000000000||1700000000000-abcd1234||GET||/api/ping||||0||{\"platform\":\"N/A\",\"renderer\":\"N/A\",\"audio\":\"err_no_offline_context\"}''"
    unfolding dataToSign_def join7 ping_bag_score ping_bag_fingerprint make_nonce_def
      show_int_timestamp toUpperCase_GET serializedParams_GET_empty show_int_zero
    by simp
qed

text \<open>
  C2. For a body method the source serialises the parameters with \<^verbatim>\<open>JSON.stringify\<close>,
  which keeps the enumeration order of the keys: \<^verbatim>\<open>{b:2,a:1}\<close> is written
  \<^verbatim>\<open>{"b":2,"a":1}\<close>, and the same properties in the other order give another string.
  The sorted-key helper of the same module, which the branch does not call, gives
  \<^verbatim>\<open>{"a":1,"b":2}\<close> for both. Empty and absent parameters give \<^verbatim>\<open>{}\<close>.
\<close>

theorem C2_body_params_keep_insertion_order:
  "serializedParams (toUpperCase ''post'') (JObj [(''b'', JNum 2), (''a'', JNum 1)])
     = ''{\"b\":2,\"a\":1}''
 \<and> serializedParams (toUpperCase ''post'') (JObj [(''a'', JNum 1), (''b'', JNum 2)])
     = ''{\"a\":1,\"b\":2}''
 \<and> canonicalJsonStringify (JObj [(''b'', JNum 2), (''a'', JNum 1)]) = Some ''{\"a\":1,\"b\":2}''
 \<and> canonicalJsonStringify (JObj [(''a'', JNum 1), (''b'', JNum 2)]) = Some ''{\"a\":1,\"b\":2}''
 \<and> serializedParams (toUpperCase ''post'') (JObj []) = ''{}''
 \<and> serializedParams (toUpperCase ''post'') JUndefined = ''{}''"
proof (intro conjI)
  show "serializedParams (toUpperCase ''post'') (JObj [(''b'', JNum 2), (''a'', JNum 1)])
     = ''{\"b\":2,\"a\":1}''"
    by code_simp
  show "serializedParams (toUpperCase ''post'') (JObj [(''a'', JNum 1), (''b'', JNum 2)])
     = ''{\"a\":1,\"b\":2}''"
    by code_simp
  show "canonicalJsonStringify (JObj [(''b'', JNum 2), (''a'', JNum 1)]) = Some ''{\"a\":1,\"b\":2}''"
    by code_simp
  show "canonicalJsonStringify (JObj [(''a'', JNum 1), (''b'', JNum 2)]) = Some ''{\"a\":1,\"b\":2}''"
    by code_simp
  show "serializedParams (toUpperCase ''post'') (JObj []) = ''{}''"
    by code_simp
  show "serializedParams (toUpperCase ''post'') JUndefined = ''{}''"
    by code_simp
qed

text \<open>
  C4. When the platform probe returned its sentinel \<^verbatim>\<open>err_platform\<close>, the guard
  \<^verbatim>\<open>collectedData.platform ? ... : 'N/A'\<close> takes the first branch, reads \<^verbatim>\<open>.platform\<close>
  of a string and gets \<^verbatim>\<open>undefined\<close>; \<^verbatim>\<open>JSON.stringify\<close> then leaves the key out. The
  raw fingerprint JSON has two keys, not three, and no \<^verbatim>\<open>"N/A"\<close>.
\<close>

theorem C4_sentinel_platform_key_dropped:
  "rawFingerprintJson platform_failed_bag = ''{\"renderer\":\"llvmpipe\",\"audio\":\"35.7\"}''"
  by (simp add: rawFingerprintJson_def stringify_object_def fp_platform_def fp_renderer_def
      fp_audio_def platform_failed_bag_def no_probes_def json_quote_def json_escape_char_def)

text \<open>
  C6. The scorer's list holds \<^verbatim>\<open>err_no_perf\<close>, which no probe returns, and lacks
  \<^verbatim>\<open>err_perf\<close>, which the performance probe returns. A bag with the three sentinels
  \<^verbatim>\<open>err_canvas\<close>, \<^verbatim>\<open>err_no_webgl\<close> and \<^verbatim>\<open>err_perf\<close> is counted as two errors and adds
  nothing; the same bag with \<^verbatim>\<open>err_no_perf_api\<close> in place of \<^verbatim>\<open>err_perf\<close> is counted as
  three and adds 6.
\<close>

theorem C6_err_perf_not_counted:
  "errorCount three_errors_bag = 2
 \<and> error_term three_errors_bag = 0
 \<and> ''err_perf'' \<notin> set fingerprintErrors
 \<and> ''err_no_perf'' \<in> set fingerprintErrors
 \<and> error_term (three_errors_bag \<lparr> performance := Some (Sentinel ''err_no_perf_api'') \<rparr>) = 6"
  by (simp add: error_term_def errorCount_def string_values_def sentinel_of_def
      fingerprintErrors_def three_errors_bag_def no_probes_def)


lemma trajectory_term_anomaly_update:
  "trajectory_term (d\<lparr>anomaly_scan := x\<rparr>) T = trajectory_term d T"
  by (simp add: trajectory_term_def trajectory_points_def trajectory_straight_def
      trajectory_regular_def isTouchDevice_def)

lemma click_term_anomaly_update: "click_term (d\<lparr>anomaly_scan := x\<rparr>) = click_term d"
  by (simp add: click_term_def clickCount_def trajectory_points_def)

lemma performance_term_anomaly_update:
  "performance_term (d\<lparr>anomaly_scan := x\<rparr>) = performance_term d"
  by (simp add: performance_term_def)

lemma error_term_anomaly_update: "error_term (d\<lparr>anomaly_scan := x\<rparr>) = error_term d"
  by (simp add: error_term_def errorCount_def string_values_def)

lemma anomaly_term_headless:
  "anomaly_term (d\<lparr>anomaly_scan := Some (a\<lparr>headless_chrome := b\<rparr>)\<rparr>) W =
   anomaly_term (d\<lparr>anomaly_scan := Some a\<rparr>) W"
  by (simp add: anomaly_term_def)

text \<open>
  C10. Two bags that differ only in the \<^verbatim>\<open>headless_chrome\<close> field of the anomaly scan
  get the same risk score under every weight map: the scorer never reads that field.
\<close>

theorem C10_headless_chrome_not_scored:
  "calculateRiskScore (d\<lparr>anomaly_scan := Some (a\<lparr>headless_chrome := b1\<rparr>)\<rparr>) w =
   calculateRiskScore (d\<lparr>anomaly_scan := Some (a\<lparr>headless_chrome := b2\<rparr>)\<rparr>) w"
  unfolding calculateRiskScore_def score_sum_def
  by (simp only: trajectory_term_anomaly_update click_term_anomaly_update
      performance_term_anomaly_update error_term_anomaly_update anomaly_term_headless)

section \<open>Properties of the Session Vault\<close>

lemma envelope_session_good: "envelope_session (good_envelope k t) = Some (k, t)"
  by (simp add: envelope_session_def good_envelope_def js_get_def)

lemma fresh_vault_eq:
  "fresh_vault = \<lparr> sessionKey = Some ''k1'', sessionToken = Some ''t1'',
                   expiresAt = 1800000, isRefreshing = False \<rparr>"
  by (simp add: fresh_vault_def vault_initialize_def fetchNewSession_def envelope_session_good
      store_session_def initial_vault_def KEY_LIFESPAN_MS_def)

text \<open>
  C3. The vault holds key \<^verbatim>\<open>k1\<close> and token \<^verbatim>\<open>t1\<close>, acquired at time 0 and expiring at
  1800000. A \<^verbatim>\<open>getCurrentKey()\<close> at time 1700000, inside the refresh window, starts a
  silent refresh; when the fetch fails (network error, a status that is not ok, or a
  body without the envelope) the \<^verbatim>\<open>catch\<close> of \<^verbatim>\<open>_fetchNewSession\<close> has cleared the
  session before \<^verbatim>\<open>_checkAndRefreshToken\<close> swallows the error: the call resolves to
  \<^verbatim>\<open>null\<close>, the token is \<^verbatim>\<open>null\<close>, and a later call no longer retries. No error reaches
  the caller.
\<close>

theorem C3_failed_refresh_clears_session:
  "getCurrentKey True NetworkError 1700000 1700001 fresh_vault = (None, initial_vault)
 \<and> getCurrentKey True (Response False None) 1700000 1700001 fresh_vault = (None, initial_vault)
 \<and> getCurrentKey True (Response True (Some (JObj [(''code'', JNum 1)]))) 1700000 1700001 fresh_vault
      = (None, initial_vault)
 \<and> getCurrentToken (snd (getCurrentKey True NetworkError 1700000 1700001 fresh_vault)) = None
 \<and> getCurrentKey True (Response True (Some (good_envelope ''k2'' ''t2''))) 1700002 1700003 initial_vault
      = (None, initial_vault)
 \<and> sessionKey fresh_vault = Some ''k1''
 \<and> getCurrentToken fresh_vault = Some ''t1''"
  by (simp add: getCurrentKey_def getCurrentToken_def checkAndRefreshToken_def
      refresh_not_needed_def fetchNewSession_def clear_session_def fresh_vault_eq
      initial_vault_def REFRESH_BUFFER_MS_def envelope_session_def js_get_def)

section \<open>Properties of the Session Vault: interleaved refreshes\<close>

lemma isRefreshing_clear_session [simp]: "isRefreshing (clear_session v) = isRefreshing v"
  by (simp add: clear_session_def)

lemma isRefreshing_store_session [simp]: "isRefreshing (store_session kt now v) = isRefreshing v"
  by (simp add: store_session_def)

lemma refresh_not_needed_flag: "isRefreshing v \<Longrightarrow> refresh_not_needed v now"
  by (simp add: refresh_not_needed_def split: option.splits)

lemma single_flight_tasks:
  "single_flight s \<Longrightarrow> tasks s = [] \<or> (\<exists>p. tasks s = [p])"
  by (cases "tasks s") (auto simp: single_flight_def)

lemma step_single_flight:
  assumes "single_flight s" and "step s e = Some s'"
  shows "single_flight s'"
proof (cases e)
  case (CallGetCurrentKey config_ok now)
  show ?thesis
  proof (cases "refresh_not_needed (vault_of s) now")
    case True
    with assms CallGetCurrentKey show ?thesis by simp
  next
    case False
    then have "\<not> isRefreshing (vault_of s)"
      using refresh_not_needed_flag by blast
    with assms(1) have "tasks s = []"
      by (simp add: single_flight_def)
    with assms(2) CallGetCurrentKey False show ?thesis
      by (auto simp: single_flight_def)
  qed
next
  case (FetchSettles i r)
  with assms show ?thesis
    by (auto simp: single_flight_def split: if_splits option.splits bool.splits)
next
  case (JsonSettles i body now)
  with assms show ?thesis
    by (auto simp: single_flight_def split: if_splits option.splits)
next
  case (Resume i)
  from assms(1) consider "tasks s = []" | p where "tasks s = [p]"
    using single_flight_tasks by blast
  then show ?thesis
  proof cases
    case 1
    with assms(2) Resume show ?thesis by simp
  next
    case 2
    with assms(2) Resume show ?thesis
      by (auto simp: single_flight_def split: if_splits)
  qed
qed

lemma run_single_flight:
  "single_flight s \<Longrightarrow> run s es = Some s' \<Longrightarrow> single_flight s'"
proof (induction es arbitrary: s)
  case Nil
  then show ?case by simp
next
  case (Cons e es)
  then show ?case
    by (auto split: option.splits dest: step_single_flight)
qed

lemma in_flight_le_tasks: "in_flight s \<le> length (tasks s)"
  by (simp add: in_flight_def)

lemma resume_releases:
  "single_flight s \<Longrightarrow> step s (Resume i) = Some s' \<Longrightarrow>
     \<not> isRefreshing (vault_of s') \<and> tasks s' = []"
  by (auto dest!: single_flight_tasks split: if_splits)

lemma completion_releases:
  assumes "tasks s = [p]"
  shows "\<exists>s'. run s (completion p r body now) = Some s'
              \<and> \<not> isRefreshing (vault_of s') \<and> tasks s' = []"
proof (cases p)
  case AwaitFetch
  with assms show ?thesis
    by (cases r) (auto split: option.splits bool.splits)
next
  case AwaitJson
  with assms show ?thesis
    by (auto split: option.splits)
next
  case Unwinding
  with assms show ?thesis by simp
qed

text \<open>Calls made while a refresh is pending start nothing.\<close>

lemma calls_while_refreshing:
  "isRefreshing (vault_of s) \<Longrightarrow>
     run s (map (\<lambda>c. CallGetCurrentKey (fst c) (snd c)) cs) = Some s"
  by (induction cs) (simp_all add: refresh_not_needed_flag)

text \<open>
  C5. Start from a vault with no refresh pending and let calls of \<^verbatim>\<open>getCurrentKey\<close>
  and the settling of fetches interleave in any order. In every state reached, at
  most one request to \<^verbatim>\<open>/warden/init\<close> is in flight; \<^verbatim>\<open>isRefreshing\<close> is set exactly
  while a refresh is pending; calls made while it is set change nothing (they start
  no fetch); when the pending refresh resumes after its fetch settled, the flag is
  released; and whatever the outcome of the fetch (rejected, not ok, unparsable,
  invalid or valid envelope), the pending refresh runs to its end and leaves the flag
  released.
\<close>

theorem C5_single_flight_refresh:
  assumes "\<not> isRefreshing v" and "run (idle v) es = Some s"
  shows "in_flight s \<le> 1
       \<and> (isRefreshing (vault_of s) \<longleftrightarrow> tasks s \<noteq> [])
       \<and> (\<forall>cs. isRefreshing (vault_of s) \<longrightarrow>
             run s (map (\<lambda>c. CallGetCurrentKey (fst c) (snd c)) cs) = Some s)
       \<and> (\<forall>i s'. step s (Resume i) = Some s' \<longrightarrow>
             \<not> isRefreshing (vault_of s') \<and> tasks s' = [])
       \<and> (\<forall>p r body now. tasks s = [p] \<longrightarrow>
             (\<exists>s'. run s (completion p r body now) = Some s'
                   \<and> \<not> isRefreshing (vault_of s') \<and> tasks s' = []))"
proof -
  from assms(1) have "single_flight (idle v)"
    by (simp add: single_flight_def idle_def)
  then have inv: "single_flight s"
    using assms(2) by (rule run_single_flight)
  have "in_flight s \<le> length (tasks s)"
    by (rule in_flight_le_tasks)
  with inv have a: "in_flight s \<le> 1"
    by (simp add: single_flight_def)
  from inv have b: "isRefreshing (vault_of s) \<longleftrightarrow> tasks s \<noteq> []"
    by (simp add: single_flight_def)
  have c: "\<forall>cs. isRefreshing (vault_of s) \<longrightarrow>
             run s (map (\<lambda>c. CallGetCurrentKey (fst c) (snd c)) cs) = Some s"
    using calls_while_refreshing by blast
  have d: "\<forall>i s'. step s (Resume i) = Some s' \<longrightarrow>
             \<not> isRefreshing (vault_of s') \<and> tasks s' = []"
    using resume_releases [OF inv] by blast
  have e: "\<forall>p r body now. tasks s = [p] \<longrightarrow>
             (\<exists>s'. run s (completion p r body now) = Some s'
                   \<and> \<not> isRefreshing (vault_of s') \<and> tasks s' = [])"
    using completion_releases by blast
  from a b c d e show ?thesis by blast
qed

lemma run_ten_calls:
  "run (idle fresh_vault) ten_calls =
     Some \<lparr> vault_of = fresh_vault \<lparr> isRefreshing := True \<rparr>, tasks = [AwaitFetch], fetches = 1 \<rparr>"
  by (simp add: ten_calls_def idle_def refresh_not_needed_def fresh_vault_eq REFRESH_BUFFER_MS_def)

theorem C5_ten_concurrent_calls_witness:
  "\<not> isRefreshing fresh_vault
 \<and> run (idle fresh_vault) ten_calls =
     Some \<lparr> vault_of = fresh_vault \<lparr> isRefreshing := True \<rparr>, tasks = [AwaitFetch], fetches = 1 \<rparr>
 \<and> in_flight \<lparr> vault_of = fresh_vault \<lparr> isRefreshing := True \<rparr>, tasks = [AwaitFetch], fetches = 1 \<rparr> \<le> 1
 \<and> (\<exists>s'. run \<lparr> vault_of = fresh_vault \<lparr> isRefreshing := True \<rparr>, tasks = [AwaitFetch], fetches = 1 \<rparr>
             (completion AwaitFetch None None 1700500) = Some s'
          \<and> \<not> isRefreshing (vault_of s') \<and> tasks s' = [])"
proof -
  have h1: "\<not> isRefreshing fresh_vault"
    by (simp add: fresh_vault_eq)
  note th = C5_single_flight_refresh [OF h1 run_ten_calls]
  from th have "in_flight \<lparr> vault_of = fresh_vault \<lparr> isRefreshing := True \<rparr>,
                            tasks = [AwaitFetch], fetches = 1 \<rparr> \<le> 1"
    by blast
  moreover from th have
    "\<exists>s'. run \<lparr> vault_of = fresh_vault \<lparr> isRefreshing := True \<rparr>, tasks = [AwaitFetch], fetches = 1 \<rparr>
             (completion AwaitFetch None None 1700500) = Some s'
          \<and> \<not> isRefreshing (vault_of s') \<and> tasks s' = []"
    by simp
  ultimately show ?thesis
    using h1 run_ten_calls by blast
qed

lemma sequential_refresh:
  assumes "\<not> refresh_not_needed v now"
  shows "run (idle v) (CallGetCurrentKey True now # outcome_events outcome now') =
           Some \<lparr> vault_of = checkAndRefreshToken True outcome now now' v, tasks = [], fetches = 1 \<rparr>"
proof (cases outcome)
  case NetworkError
  with assms show ?thesis
    by (simp add: idle_def checkAndRefreshToken_def fetchNewSession_def clear_session_def)
next
  case (Response ok body)
  with assms show ?thesis
    by (cases body)
       (auto simp: idle_def checkAndRefreshToken_def fetchNewSession_def clear_session_def
          store_session_def split: option.splits)
qed

section \<open>Properties of double-precision rounding\<close>

lemma binade_unfold:
  "0 < x \<Longrightarrow> binade x = (if 2 \<le> x then binade (x / 2) + 1 else if x < 1 then binade (x * 2) - 1 else 0)"
  by (subst binade.simps) simp

lemma two_powi_Suc: "(2::real) powi (e + 1) = 2 * 2 powi e"
  by (simp add: power_int_add_1')

lemma two_powi_pred: "(2::real) powi e = 2 * 2 powi (e - 1)"
  using two_powi_Suc [of "e - 1"] by simp

lemma binade_unique:
  "0 < x \<Longrightarrow> 2 powi e \<le> x \<Longrightarrow> x < 2 powi (e + 1) \<Longrightarrow> binade x = e"
proof (induction x arbitrary: e rule: binade.induct)
  case (1 x)
  consider (big) "2 \<le> x" | (small) "x < 1" | (unit) "1 \<le> x" "x < 2"
    by linarith
  then show ?case
  proof cases
    case big
    have "2 powi (e - 1) \<le> x / 2"
      using "1.prems"(2) two_powi_pred [of e] by simp
    moreover have "x / 2 < 2 powi (e - 1 + 1)"
      using "1.prems"(3) two_powi_Suc [of e] by simp
    ultimately have "binade (x / 2) = e - 1"
      using "1.IH"(1) [of "e - 1"] "1.prems"(1) big by simp
    with big "1.prems"(1) show ?thesis
      by (simp add: binade_unfold)
  next
    case small
    have "2 powi (e + 1) \<le> x * 2"
      using "1.prems"(2) two_powi_Suc [of e] by simp
    moreover have "x * 2 < 2 powi (e + 1 + 1)"
      using "1.prems"(3) two_powi_Suc [of "e + 1"] two_powi_Suc [of e] by simp
    ultimately have "binade (x * 2) = e + 1"
      using "1.IH"(2) [of "e + 1"] "1.prems"(1) small by simp
    with small "1.prems"(1) show ?thesis
      by (simp add: binade_unfold)
  next
    case unit
    have "\<not> 1 \<le> e"
    proof
      assume "1 \<le> e"
      then have "(2::real) powi 1 \<le> 2 powi e"
        by (intro power_int_increasing) auto
      with "1.prems"(2) unit show False by simp
    qed
    moreover have "\<not> e + 1 \<le> 0"
    proof
      assume "e + 1 \<le> 0"
      then have "(2::real) powi (e + 1) \<le> 2 powi 0"
        by (intro power_int_increasing) auto
      with "1.prems"(3) unit show False by simp
    qed
    ultimately have "e = 0" by linarith
    with unit "1.prems"(1) show ?thesis
      by (simp add: binade_unfold)
  qed
qed

lemma round_half_even_near:
  assumes "\<bar>r - of_int n\<bar> < 1 / 2"
  shows "round_half_even r = n"
proof -
  have fl: "of_int \<lfloor>r\<rfloor> \<le> r" "r < of_int \<lfloor>r\<rfloor> + 1"
    by linarith+
  show ?thesis
  proof (cases "r - of_int \<lfloor>r\<rfloor> < 1 / 2")
    case True
    with assms fl have "\<lfloor>r\<rfloor> = n" by linarith
    with True show ?thesis by (simp add: round_half_even_def)
  next
    case False
    have "r - of_int \<lfloor>r\<rfloor> \<noteq> 1 / 2"
    proof
      assume h: "r - of_int \<lfloor>r\<rfloor> = 1 / 2"
      from h assms have "real_of_int \<lfloor>r\<rfloor> < real_of_int n"
        by linarith
      then have a: "\<lfloor>r\<rfloor> < n"
        by (simp only: of_int_less_iff)
      from h assms have "real_of_int n < real_of_int (\<lfloor>r\<rfloor> + 1)"
        by (simp only: of_int_add of_int_1)
      then have "n < \<lfloor>r\<rfloor> + 1"
        by (simp only: of_int_less_iff)
      with a show False by linarith
    qed
    with False have gt: "1 / 2 < r - of_int \<lfloor>r\<rfloor>" by linarith
    with assms fl have "\<lfloor>r\<rfloor> + 1 = n" by linarith
    with False gt show ?thesis by (simp add: round_half_even_def)
  qed
qed

lemma abs_scaled_diff:
  fixes x q k :: real
  assumes "0 < q"
  shows "\<bar>x - k * q\<bar> = \<bar>x / q - k\<bar> * q"
proof -
  have "x - k * q = (x / q - k) * q"
    using assms by (simp add: field_simps)
  then show ?thesis
    using assms by (simp add: abs_mult)
qed

lemma fl_near:
  assumes lo: "2 powi e \<le> \<bar>x\<bar>" and hi: "\<bar>x\<bar> < 2 powi (e + 1)"
    and e: "- 1022 \<le> e" "e \<le> 1022"
    and n: "\<bar>x / 2 powi (e - 52) - of_int n\<bar> < 1 / 2"
  shows "fl x = Fin (of_int n * 2 powi (e - 52))"
proof -
  have pos: "0 < \<bar>x\<bar>"
    using lo by (smt (verit) zero_less_power_int)
  have b: "binade \<bar>x\<bar> = e"
    using pos lo hi by (rule binade_unique)
  have "max (e - 52) (- 1074) = e - 52"
    using e by linarith
  then have q: "quantum x = 2 powi (e - 52)"
    by (simp add: quantum_def b)
  have qpos: "0 < (2::real) powi (e - 52)" by simp
  have r: "round_half_even (x / 2 powi (e - 52)) = n"
    using n by (rule round_half_even_near)
  have "\<bar>x - of_int n * 2 powi (e - 52)\<bar> = \<bar>x / 2 powi (e - 52) - of_int n\<bar> * 2 powi (e - 52)"
    using qpos by (rule abs_scaled_diff)
  also have "\<dots> < 1 / 2 * 2 powi (e - 52)"
    using n qpos by (intro mult_strict_right_mono) auto
  finally have d: "\<bar>x - of_int n * 2 powi (e - 52)\<bar> < 1 / 2 * 2 powi (e - 52)" .
  have "(2::real) powi (e - 52) \<le> 2 powi (e + 1)"
    by (intro power_int_increasing) auto
  with d hi have "\<bar>real_of_int n * 2 powi (e - 52)\<bar> < 2 * 2 powi (e + 1)"
    by linarith
  also have "\<dots> = 2 powi (e + 2)"
    using two_powi_Suc [of "e + 1"] by (simp add: add.commute)
  also have "\<dots> \<le> 2 powi 1024"
    using e by (intro power_int_increasing) auto
  finally have "\<not> 2 ^ 1024 \<le> \<bar>real_of_int n * 2 powi (e - 52)\<bar>"
    by simp
  then show ?thesis
    by (simp add: fl_def r q)
qed

lemma fl_zero: "fl 0 = Fin 0"
  by (simp add: fl_def round_half_even_def)

lemma binade_bounds:
  "0 < x \<Longrightarrow> 2 powi binade x \<le> x \<and> x < 2 powi (binade x + 1)"
proof (induction x rule: binade.induct)
  case (1 x)
  consider (big) "2 \<le> x" | (small) "x < 1" | (unit) "1 \<le> x" "x < 2"
    by linarith
  then show ?case
  proof cases
    case big
    then have b: "binade x = binade (x / 2) + 1"
      using "1.prems" by (simp add: binade_unfold)
    have "2 powi binade (x / 2) \<le> x / 2 \<and> x / 2 < 2 powi (binade (x / 2) + 1)"
      using "1.IH"(1) "1.prems" big by simp
    then show ?thesis
      unfolding b using two_powi_Suc [of "binade (x / 2)"] two_powi_Suc [of "binade (x / 2) + 1"]
      by simp
  next
    case small
    then have b: "binade x = binade (x * 2) - 1"
      using "1.prems" by (simp add: binade_unfold)
    have "2 powi binade (x * 2) \<le> x * 2 \<and> x * 2 < 2 powi (binade (x * 2) + 1)"
      using "1.IH"(2) "1.prems" small by simp
    then show ?thesis
      unfolding b using two_powi_pred [of "binade (x * 2)"] two_powi_Suc [of "binade (x * 2)"]
      by simp
  next
    case unit
    then have "binade x = 0"
      using "1.prems" by (simp add: binade_unfold)
    with unit show ?thesis by simp
  qed
qed

lemma round_half_even_of_int: "round_half_even (of_int n) = n"
  by (rule round_half_even_near) simp

text \<open>A number with at most 53 significant bits, in range, is a double: rounding keeps it.\<close>

lemma fl_exact:
  assumes x: "x = of_int n * 2 powi k" and n: "\<bar>n\<bar> < 2 ^ 53" and k: "- 1074 \<le> k" "k \<le> 970"
  shows "fl x = Fin x"
proof (cases "n = 0")
  case True
  with x show ?thesis by (simp add: fl_zero)
next
  case False
  then have pos: "0 < \<bar>x\<bar>"
    using x by simp
  define e where "e = binade \<bar>x\<bar>"
  have lo: "2 powi e \<le> \<bar>x\<bar>" and hi: "\<bar>x\<bar> < 2 powi (e + 1)"
    using binade_bounds [OF pos] by (simp_all add: e_def)
  have "real_of_int \<bar>n\<bar> < 2 ^ 53"
    using n by (metis of_int_less_numeral_power_cancel_iff)
  then have "\<bar>x\<bar> < 2 ^ 53 * 2 powi k"
    unfolding x by (simp add: abs_mult)
  also have "\<dots> = 2 powi (k + 53)"
    by (simp add: power_int_add)
  finally have xk: "\<bar>x\<bar> < 2 powi (k + 53)" .
  have ek: "e < k + 53"
  proof (rule ccontr)
    assume "\<not> e < k + 53"
    then have "(2::real) powi (k + 53) \<le> 2 powi e"
      by (intro power_int_increasing) auto
    with lo xk show False by linarith
  qed
  define m where "m = max (e - 52) (- 1074)"
  have mk: "m \<le> k"
    using ek k by (simp add: m_def)
  have q: "quantum x = 2 powi m"
    by (simp add: quantum_def e_def m_def)
  have "(2::real) powi k = 2 powi (k - m) * 2 powi m"
    by (simp flip: power_int_add)
  also have "(2::real) powi (k - m) = 2 ^ nat (k - m)"
    using mk by (simp add: power_int_def)
  finally have xm: "x = of_int (n * 2 ^ nat (k - m)) * 2 powi m"
    unfolding x by simp
  then have xq: "x / quantum x = of_int (n * 2 ^ nat (k - m))"
    unfolding q by simp
  have r: "round_half_even (x / quantum x) = n * 2 ^ nat (k - m)"
    unfolding xq by (rule round_half_even_of_int)
  have same: "of_int (round_half_even (x / quantum x)) * quantum x = x"
    unfolding r using xm q by simp
  have "(2::real) powi (k + 53) \<le> 2 powi 1024"
    using k by (intro power_int_increasing) auto
  with xk have "\<not> 2 ^ 1024 \<le> \<bar>x\<bar>"
    by simp
  then show ?thesis
    by (simp add: fl_def same)
qed

lemma fl_int: "x \<in> \<int> \<Longrightarrow> \<bar>x\<bar> < 2 ^ 53 \<Longrightarrow> fl x = Fin x"
proof -
  assume "x \<in> \<int>" and b: "\<bar>x\<bar> < 2 ^ 53"
  then obtain n where n: "x = of_int n"
    by (auto elim: Ints_cases)
  with b have "\<bar>n\<bar> < 2 ^ 53"
    by (metis of_int_abs of_int_less_numeral_power_cancel_iff)
  then show "fl x = Fin x"
    using fl_exact [of x n 0] n by simp
qed

text \<open>A result half-way between two neighbouring doubles goes to the even one.\<close>

lemma round_half_even_tie:
  assumes "r = real_of_int k + 1 / 2"
  shows "round_half_even r = (if even k then k else k + 1)"
proof -
  have "\<lfloor>r\<rfloor> = k"
    using assms by linarith
  with assms show ?thesis
    by (simp add: round_half_even_def)
qed

lemma fl_tie:
  assumes lo: "2 powi e \<le> \<bar>x\<bar>" and hi: "\<bar>x\<bar> < 2 powi (e + 1)"
    and e: "- 1022 \<le> e" "e \<le> 1022"
    and k: "x / 2 powi (e - 52) = real_of_int k + 1 / 2"
  shows "fl x = Fin (of_int (if even k then k else k + 1) * 2 powi (e - 52))"
proof -
  define n where "n = (if even k then k else k + 1)"
  have pos: "0 < \<bar>x\<bar>"
    using lo by (smt (verit) zero_less_power_int)
  have b: "binade \<bar>x\<bar> = e"
    using pos lo hi by (rule binade_unique)
  have "max (e - 52) (- 1074) = e - 52"
    using e by linarith
  then have q: "quantum x = 2 powi (e - 52)"
    by (simp add: quantum_def b)
  have qpos: "0 < (2::real) powi (e - 52)" by simp
  have r: "round_half_even (x / 2 powi (e - 52)) = n"
    unfolding n_def using k by (rule round_half_even_tie)
  have near: "\<bar>x / 2 powi (e - 52) - of_int n\<bar> \<le> 1 / 2"
    unfolding k n_def by simp
  have "\<bar>x - of_int n * 2 powi (e - 52)\<bar> = \<bar>x / 2 powi (e - 52) - of_int n\<bar> * 2 powi (e - 52)"
    using qpos by (rule abs_scaled_diff)
  also have "\<dots> \<le> 1 / 2 * 2 powi (e - 52)"
    using near qpos by (intro mult_right_mono) auto
  finally have d: "\<bar>x - of_int n * 2 powi (e - 52)\<bar> \<le> 1 / 2 * 2 powi (e - 52)" .
  have "(2::real) powi (e - 52) \<le> 2 powi (e + 1)"
    by (intro power_int_increasing) auto
  with d hi qpos have "\<bar>real_of_int n * 2 powi (e - 52)\<bar> < 2 * 2 powi (e + 1)"
    by linarith
  also have "\<dots> = 2 powi (e + 2)"
    using two_powi_Suc [of "e + 1"] by (simp add: add.commute)
  also have "\<dots> \<le> 2 powi 1024"
    using e by (intro power_int_increasing) auto
  finally have "\<not> 2 ^ 1024 \<le> \<bar>real_of_int n * 2 powi (e - 52)\<bar>"
    by simp
  then show ?thesis
    unfolding n_def [symmetric] by (simp add: fl_def r q)
qed

text \<open>The rounded square root of a number between the squares of two half-way points.\<close>

lemma fl_sqrt_near:
  assumes e: "- 1022 \<le> e" "e \<le> 1022"
    and lo: "(2 powi e)\<^sup>2 \<le> v" and hi: "v < (2 powi (e + 1))\<^sup>2"
    and n: "1 \<le> n"
    and below: "((real_of_int n - 1 / 2) * 2 powi (e - 52))\<^sup>2 < v"
    and above: "v < ((real_of_int n + 1 / 2) * 2 powi (e - 52))\<^sup>2"
  shows "fl (sqrt v) = Fin (of_int n * 2 powi (e - 52))"
proof -
  have qpos: "0 < (2::real) powi (e - 52)" by simp
  have "2 powi e \<le> sqrt v"
    using lo by (rule real_le_rsqrt)
  then have a: "2 powi e \<le> \<bar>sqrt v\<bar>" by simp
  have "sqrt v < 2 powi (e + 1)"
    using hi by (intro real_less_lsqrt) simp_all
  moreover have "0 \<le> sqrt v"
    using lo by (smt (verit) real_sqrt_ge_zero zero_le_power2)
  ultimately have b: "\<bar>sqrt v\<bar> < 2 powi (e + 1)" by simp
  have l: "(real_of_int n - 1 / 2) * 2 powi (e - 52) < sqrt v"
    using below by (rule real_less_rsqrt)
  have "0 \<le> real_of_int n + 1 / 2"
    using n by simp
  then have "0 \<le> (real_of_int n + 1 / 2) * 2 powi (e - 52)"
    by simp
  then have u: "sqrt v < (real_of_int n + 1 / 2) * 2 powi (e - 52)"
    using above by (intro real_less_lsqrt) simp_all
  from l qpos have "real_of_int n - 1 / 2 < sqrt v / 2 powi (e - 52)"
    by (simp add: pos_less_divide_eq)
  moreover from u qpos have "sqrt v / 2 powi (e - 52) < real_of_int n + 1 / 2"
    by (simp add: pos_divide_less_eq)
  ultimately have c: "\<bar>sqrt v / 2 powi (e - 52) - of_int n\<bar> < 1 / 2"
    by linarith
  from a b e c show ?thesis
    by (rule fl_near)
qed

lemma sqrt_between_bounds:
  "0 \<le> lo \<Longrightarrow> lo < hi \<Longrightarrow> lo * lo \<le> n \<Longrightarrow> n < hi * hi \<Longrightarrow>
     0 \<le> sqrt_between lo hi n
     \<and> sqrt_between lo hi n * sqrt_between lo hi n \<le> n
     \<and> n < (sqrt_between lo hi n + 1) * (sqrt_between lo hi n + 1)"
proof (induction lo hi n rule: sqrt_between.induct)
  case (1 lo hi n)
  show ?case
  proof (cases "hi - lo \<le> 1")
    case True
    with "1.prems" have "hi = lo + 1" by linarith
    with True "1.prems" show ?thesis
      by (subst (1 2 3 4 5) sqrt_between.simps) simp
  next
    case far: False
    define mid where "mid = (lo + hi) div 2"
    have m: "lo < mid" "mid < hi"
      using far by (simp_all add: mid_def)
    show ?thesis
    proof (cases "mid * mid \<le> n")
      case True
      have "0 \<le> sqrt_between mid hi n
          \<and> sqrt_between mid hi n * sqrt_between mid hi n \<le> n
          \<and> n < (sqrt_between mid hi n + 1) * (sqrt_between mid hi n + 1)"
        using "1.IH"(1) far True m "1.prems" unfolding mid_def by simp
      moreover have "sqrt_between lo hi n = sqrt_between mid hi n"
        using far True by (subst sqrt_between.simps) (simp add: mid_def)
      ultimately show ?thesis by simp
    next
      case False
      have "0 \<le> sqrt_between lo mid n
          \<and> sqrt_between lo mid n * sqrt_between lo mid n \<le> n
          \<and> n < (sqrt_between lo mid n + 1) * (sqrt_between lo mid n + 1)"
        using "1.IH"(2) far False m "1.prems" unfolding mid_def by simp
      moreover have "sqrt_between lo hi n = sqrt_between lo mid n"
        using far False by (subst sqrt_between.simps) (simp add: mid_def)
      ultimately show ?thesis by simp
    qed
  qed
qed

lemma floor_sqrt_bounds:
  assumes "0 \<le> n"
  shows "0 \<le> floor_sqrt n \<and> floor_sqrt n * floor_sqrt n \<le> n
       \<and> n < (floor_sqrt n + 1) * (floor_sqrt n + 1)"
proof -
  have "n < (n + 1) * (n + 1)"
  proof -
    have "0 \<le> n * n" by simp
    then have "n < n * n + 2 * n + 1" using assms by linarith
    then show ?thesis by (simp add: algebra_simps)
  qed
  with assms show ?thesis
    unfolding floor_sqrt_def by (intro sqrt_between_bounds) simp_all
qed

text \<open>The floor of a square root, from the integer square root of the floor.\<close>

lemma floor_sqrt_real:
  assumes "0 \<le> y"
  shows "real_of_int (floor_sqrt \<lfloor>y\<rfloor>) \<le> sqrt y"
    and "sqrt y < real_of_int (floor_sqrt \<lfloor>y\<rfloor>) + 1"
    and "0 \<le> floor_sqrt \<lfloor>y\<rfloor>"
proof -
  define k where "k = floor_sqrt \<lfloor>y\<rfloor>"
  have f: "0 \<le> \<lfloor>y\<rfloor>" using assms by simp
  from floor_sqrt_bounds [OF f]
  have k: "0 \<le> k" "k * k \<le> \<lfloor>y\<rfloor>" "\<lfloor>y\<rfloor> < (k + 1) * (k + 1)"
    by (simp_all add: k_def)
  have "real_of_int (k * k) \<le> real_of_int \<lfloor>y\<rfloor>"
    using k(2) by (simp only: of_int_le_iff)
  also have "\<dots> \<le> y" by simp
  finally have lo: "(real_of_int k)\<^sup>2 \<le> y"
    by (simp add: power2_eq_square)
  have "\<lfloor>y\<rfloor> + 1 \<le> (k + 1) * (k + 1)"
    using k(3) by simp
  then have "real_of_int (\<lfloor>y\<rfloor> + 1) \<le> real_of_int ((k + 1) * (k + 1))"
    by (simp only: of_int_le_iff)
  moreover have "y < real_of_int (\<lfloor>y\<rfloor> + 1)"
    by linarith
  ultimately have "y < real_of_int ((k + 1) * (k + 1))"
    by linarith
  then have hi: "y < (real_of_int k + 1)\<^sup>2"
    by (simp add: power2_eq_square)
  have kr: "0 \<le> real_of_int k" using k(1) by simp
  show "real_of_int k \<le> sqrt y"
    using lo kr by (simp add: real_le_rsqrt)
  show "sqrt y < real_of_int k + 1"
    using hi kr by (intro real_less_lsqrt) simp_all
  show "0 \<le> k" by (rule k(1))
qed

lemma round_half_even_floor:
  assumes "real_of_int k \<le> r" and "r < real_of_int k + 1"
  shows "round_half_even r =
           (if r < real_of_int k + 1 / 2 then k
            else if real_of_int k + 1 / 2 < r then k + 1
            else if even k then k
            else k + 1)"
proof -
  have "\<lfloor>r\<rfloor> = k"
    using assms by linarith
  then show ?thesis
    by (auto simp: round_half_even_def)
qed

lemma half_square: "(real_of_int k + 1 / 2)\<^sup>2 = real_of_int (k * k + k) + 1 / 4"
  by (simp add: power2_eq_square algebra_simps)

lemma round_half_even_sqrt:
  assumes "0 \<le> y"
  shows "round_half_even (sqrt y) =
           (if y < of_int (floor_sqrt \<lfloor>y\<rfloor> * floor_sqrt \<lfloor>y\<rfloor> + floor_sqrt \<lfloor>y\<rfloor>) + 1 / 4
            then floor_sqrt \<lfloor>y\<rfloor>
            else if of_int (floor_sqrt \<lfloor>y\<rfloor> * floor_sqrt \<lfloor>y\<rfloor> + floor_sqrt \<lfloor>y\<rfloor>) + 1 / 4 < y
            then floor_sqrt \<lfloor>y\<rfloor> + 1
            else if even (floor_sqrt \<lfloor>y\<rfloor>) then floor_sqrt \<lfloor>y\<rfloor>
            else floor_sqrt \<lfloor>y\<rfloor> + 1)"
proof -
  define k where "k = floor_sqrt \<lfloor>y\<rfloor>"
  have b: "real_of_int k \<le> sqrt y" "sqrt y < real_of_int k + 1" "0 \<le> k"
    using floor_sqrt_real [OF assms] by (simp_all add: k_def)
  have h: "0 \<le> real_of_int k + 1 / 2"
    using b(3) by simp
  have lt: "sqrt y < real_of_int k + 1 / 2 \<longleftrightarrow> y < real_of_int (k * k + k) + 1 / 4"
  proof
    assume "sqrt y < real_of_int k + 1 / 2"
    then have "(sqrt y)\<^sup>2 < (real_of_int k + 1 / 2)\<^sup>2"
      using assms by (intro power_strict_mono) simp_all
    then show "y < real_of_int (k * k + k) + 1 / 4"
      using assms by (simp add: half_square)
  next
    assume "y < real_of_int (k * k + k) + 1 / 4"
    then have "y < (real_of_int k + 1 / 2)\<^sup>2"
      by (simp add: half_square)
    then show "sqrt y < real_of_int k + 1 / 2"
      using h by (intro real_less_lsqrt) simp_all
  qed
  have gt: "real_of_int k + 1 / 2 < sqrt y \<longleftrightarrow> real_of_int (k * k + k) + 1 / 4 < y"
  proof
    assume "real_of_int k + 1 / 2 < sqrt y"
    then have "(real_of_int k + 1 / 2)\<^sup>2 < (sqrt y)\<^sup>2"
      using h by (intro power_strict_mono) simp_all
    then show "real_of_int (k * k + k) + 1 / 4 < y"
      using assms by (simp add: half_square)
  next
    assume "real_of_int (k * k + k) + 1 / 4 < y"
    then have "(real_of_int k + 1 / 2)\<^sup>2 < y"
      by (simp add: half_square)
    then show "real_of_int k + 1 / 2 < sqrt y"
      using h by (intro real_less_rsqrt) simp_all
  qed
  show ?thesis
    unfolding k_def [symmetric] round_half_even_floor [OF b(1,2)] lt gt ..
qed

text \<open>The binade of a square root is half the binade, rounded down.\<close>

lemma binade_sqrt:
  assumes "0 < x"
  shows "binade (sqrt x) = binade x div 2"
proof -
  define e where "e = binade x div 2"
  have b: "2 powi binade x \<le> x" "x < 2 powi (binade x + 1)"
    using binade_bounds [OF assms] by simp_all
  have "(2::real) powi (2 * e) \<le> 2 powi binade x"
    by (intro power_int_increasing) (simp_all add: e_def)
  with b(1) have lo: "(2 powi e)\<^sup>2 \<le> x"
    by (simp add: power2_eq_square flip: power_int_add mult_2)
  have "(2::real) powi (binade x + 1) \<le> 2 powi (2 * (e + 1))"
    by (intro power_int_increasing) (simp_all add: e_def)
  with b(2) have hi: "x < (2 powi (e + 1))\<^sup>2"
    by (simp add: power2_eq_square flip: power_int_add mult_2)
  have "2 powi e \<le> sqrt x"
    using lo by (intro real_le_rsqrt)
  moreover have "sqrt x < 2 powi (e + 1)"
    using hi by (intro real_less_lsqrt) simp_all
  moreover have "0 < sqrt x"
    using assms by simp
  ultimately show ?thesis
    unfolding e_def [symmetric] by (intro binade_unique)
qed

lemma binade_zero: "binade 0 = 0"
  by (subst binade.simps) simp

lemma fl_sqrt:
  assumes "0 \<le> x"
  shows "fl (sqrt x) = sqrt_nearest x"
proof -
  define q :: real where "q = 2 powi (max (binade x div 2 - 52) (- 1074))"
  have qpos: "0 < q" by (simp add: q_def)
  have b: "binade \<bar>sqrt x\<bar> = binade x div 2"
  proof (cases "x = 0")
    case True
    then show ?thesis by (simp add: binade_zero)
  next
    case False
    with assms have "0 < x" by simp
    then show ?thesis by (simp add: binade_sqrt)
  qed
  have qu: "quantum (sqrt x) = q"
    by (simp add: quantum_def b q_def)
  have "sqrt x / q = sqrt x / sqrt (q * q)"
    using qpos by simp
  also have "\<dots> = sqrt (x / (q * q))"
    by (simp add: real_sqrt_divide)
  finally have sq: "sqrt x / q = sqrt (x / (q * q))" .
  have y: "0 \<le> x / (q * q)"
    using assms by simp
  have pinf: "0 < sqrt x" if "2 ^ 1024 \<le> \<bar>real_of_int m * q\<bar>" and "m = round_half_even (sqrt x / q)" for m
  proof (rule ccontr)
    assume "\<not> 0 < sqrt x"
    with assms have "x = 0" by (simp add: not_less)
    with that show False by (simp add: round_half_even_def)
  qed
  show ?thesis
    unfolding fl_def qu sq round_half_even_sqrt [OF y] sqrt_nearest_def Let_def q_def [symmetric]
    using pinf [unfolded sq round_half_even_sqrt [OF y]] by auto
qed

lemma sqrt_rounded_code [code]:
  "sqrt_rounded (Fin x) = (if x < 0 then NaN else sqrt_nearest x)"
  "sqrt_rounded PInf = PInf"
  "sqrt_rounded NInf = NaN"
  "sqrt_rounded NaN = NaN"
  by (simp_all add: fl_sqrt)

lemma fl_1_10: "fl (1 / 10) = Fin (3602879701896397 / 36028797018963968)"
  using fl_near [of "- 4" "1 / 10" 7205759403792794] by simp

lemma fl_4_5: "fl (4 / 5) = Fin (3602879701896397 / 4503599627370496)"
  using fl_near [of "- 1" "4 / 5" 7205759403792794] by simp

lemma fl_1_5: "fl (1 / 5) = Fin (3602879701896397 / 18014398509481984)"
  using fl_near [of "- 3" "1 / 5" 7205759403792794] by simp

lemma fl_3_10: "fl (3 / 10) = Fin (5404319552844595 / 18014398509481984)"
  using fl_near [of "- 2" "3 / 10" 5404319552844595] by simp

lemma fl_2_5: "fl (2 / 5) = Fin (3602879701896397 / 9007199254740992)"
  using fl_near [of "- 2" "2 / 5" 7205759403792794] by simp

lemma fl_9_10: "fl (9 / 10) = Fin (8106479329266893 / 9007199254740992)"
  using fl_near [of "- 1" "9 / 10" 8106479329266893] by simp

lemma fl_18_19: "fl (18 / 19) = Fin (8533136136070413 / 9007199254740992)"
  using fl_near [of "- 1" "18 / 19" 8533136136070413] by simp

lemma fl_dyadic_a: "fl (900719925474099 / 9007199254740992) = Fin (900719925474099 / 9007199254740992)"
  using fl_exact [of "900719925474099 / 9007199254740992" 900719925474099 "- 53"] by simp

lemma fl_dyadic_b: "fl (- (900719925474099 / 9007199254740992)) = Fin (- (900719925474099 / 9007199254740992))"
  using fl_exact [of "- (900719925474099 / 9007199254740992)" "- 900719925474099" "- 53"] by simp

lemma fl_dyadic_c: "fl (3602879701896397 / 18014398509481984) = Fin (3602879701896397 / 18014398509481984)"
  using fl_exact [of "3602879701896397 / 18014398509481984" 3602879701896397 "- 54"] by simp

lemma fl_dyadic_d: "fl (- (3602879701896397 / 18014398509481984)) = Fin (- (3602879701896397 / 18014398509481984))"
  using fl_exact [of "- (3602879701896397 / 18014398509481984)" "- 3602879701896397" "- 54"] by simp

lemma fl_dyadic_e: "fl (3602879701896397 / 4503599627370496) = Fin (3602879701896397 / 4503599627370496)"
  using fl_exact [of "3602879701896397 / 4503599627370496" 3602879701896397 "- 52"] by simp

lemma fl_dyadic_f: "fl (8106479329266893 / 4503599627370496) = Fin (8106479329266893 / 4503599627370496)"
  using fl_exact [of "8106479329266893 / 4503599627370496" 8106479329266893 "- 52"] by simp

section \<open>Properties of the Data Loom: trajectory analysis\<close>

lemma reduce_add_foldl: "reduce_add a xs = foldl d_add a xs"
  by (induction xs arbitrary: a) simp_all

text \<open>The slopes of the segments that move, and the adjacent pairs of a list of slopes.\<close>

lemma count_consistent_eq:
  "count_consistent ps lastSlope c =
     c + length (filter (\<lambda>(earlier, later). slope_close later earlier)
           (zip ((case lastSlope of None \<Rightarrow> [] | Some l \<Rightarrow> [l])
                   @ map (\<lambda>(p, q). segment_slope p q)
                       (filter (\<lambda>(p, q). \<not> stationary p q) (zip ps (tl ps))))
                (tl ((case lastSlope of None \<Rightarrow> [] | Some l \<Rightarrow> [l])
                   @ map (\<lambda>(p, q). segment_slope p q)
                       (filter (\<lambda>(p, q). \<not> stationary p q) (zip ps (tl ps)))))))"
proof (induction ps lastSlope c rule: count_consistent.induct)
  case (1 p q rest lastSlope consistentSlopes)
  show ?case
  proof (cases "stationary p q")
    case True
    with 1 show ?thesis by simp
  next
    case False
    with 1 show ?thesis
      by (cases lastSlope) simp_all
  qed
qed (simp_all split: option.splits)

lemma analysis_short:
  "length trajectory < 10 \<Longrightarrow>
     analyzeMouseTrajectory Math_pow2 Math_sqrt trajectory =
       \<lparr> regularity_score_d = Fin 0, is_straight_line_d = False \<rparr>"
  by (simp add: analyzeMouseTrajectory_def)

lemma analysis_long:
  assumes "10 \<le> length trajectory"
  shows "analyzeMouseTrajectory Math_pow2 Math_sqrt trajectory =
     (let n = Fin (real (length trajectory - 1));
          ivs = map (\<lambda>(p, q). d_sub (Fin (snd (snd p))) (Fin (snd (snd q))))
                  (zip (tl trajectory) trajectory);
          avg = d_div (foldl d_add (Fin 0) ivs) n;
          sigma = Math_sqrt (d_div (foldl d_add (Fin 0) (map (\<lambda>x. Math_pow2 (d_sub x avg)) ivs)) n);
          gained = (if d_lt sigma (Fin 10) then d_add (Fin 0) (fl (8 / 10)) else Fin 0);
          slopes = map (\<lambda>(p, q). if d_sub (Fin (fst q)) (Fin (fst p)) = Fin 0 then PInf
                                  else d_div (d_sub (Fin (fst (snd q))) (Fin (fst (snd p))))
                                             (d_sub (Fin (fst q)) (Fin (fst p))))
                     (filter (\<lambda>(p, q). \<not> (d_sub (Fin (fst q)) (Fin (fst p)) = Fin 0
                                          \<and> d_sub (Fin (fst (snd q))) (Fin (fst (snd p))) = Fin 0))
                        (zip trajectory (tl trajectory)));
          pairs = length (filter (\<lambda>(earlier, later). d_lt (d_abs (d_sub later earlier)) (fl (1 / 10)))
                            (zip slopes (tl slopes)));
          straight = d_lt (fl (8 / 10)) (d_div (Fin (real pairs)) n)
      in \<lparr> regularity_score_d = Math_min (if straight then d_add gained (Fin 1) else gained) (Fin 1),
            is_straight_line_d = straight \<rparr>)"
proof -
  have len: "length (zip (tl trajectory) trajectory) = length trajectory - 1"
    by simp
  from assms have long: "\<not> length trajectory < 10"
    by simp
  show ?thesis
    unfolding analyzeMouseTrajectory_def slopes_consistent_def timing_score_def
      stdDevInterval_def avgInterval_def intervals_def reduce_add_foldl count_consistent_eq
      stationary_def segment_slope_def seg_dx_def seg_dy_def px_def py_def pt_def
      slope_close_def Let_def
    using long by (simp add: len)
qed

lemma timing_score_values:
  "timing_score Math_pow2 Math_sqrt trajectory = Fin 0
   \<or> timing_score Math_pow2 Math_sqrt trajectory = fl (8 / 10)"
  by (simp add: timing_score_def fl_4_5 fl_dyadic_e)

lemma score_values:
  assumes "10 \<le> length trajectory"
  shows "regularity_score_d (analyzeMouseTrajectory Math_pow2 Math_sqrt trajectory) =
           (if is_straight_line_d (analyzeMouseTrajectory Math_pow2 Math_sqrt trajectory) then Fin 1
            else timing_score Math_pow2 Math_sqrt trajectory)"
proof -
  from assms have long: "\<not> length trajectory < 10" by simp
  from timing_score_values [of Math_pow2 Math_sqrt trajectory] show ?thesis
  proof
    assume "timing_score Math_pow2 Math_sqrt trajectory = Fin 0"
    with long show ?thesis
      by (simp add: analyzeMouseTrajectory_def fl_int)
  next
    assume "timing_score Math_pow2 Math_sqrt trajectory = fl (8 / 10)"
    with long show ?thesis
      by (simp add: analyzeMouseTrajectory_def fl_4_5 fl_dyadic_f)
  qed
qed

lemma straight_iff:
  "10 \<le> length trajectory \<Longrightarrow>
     is_straight_line_d (analyzeMouseTrajectory Math_pow2 Math_sqrt trajectory)
       = slopes_consistent trajectory"
  by (simp add: analyzeMouseTrajectory_def)

lemmas segment_simps =
  stationary_def segment_slope_def seg_dx_def seg_dy_def px_def py_def pt_def slope_close_def
  d_sub_def fl_int

lemma line_count: "count_consistent line_trajectory None 0 = 18"
  by (simp add: line_trajectory_def segment_simps fl_1_10)

lemma line_length: "length line_trajectory = 20"
  by (simp add: line_trajectory_def)

lemma line_consistent: "slopes_consistent line_trajectory"
  by (simp add: slopes_consistent_def line_count line_length fl_4_5 fl_18_19)

lemma line_intervals: "intervals line_trajectory = replicate 19 (Fin 100)"
  by (simp add: line_trajectory_def intervals_def segment_simps numeral_eq_Suc)

lemma line_timing:
  assumes "Math_pow2 (Fin 0) = Fin 0" and "Math_sqrt (Fin 0) = Fin 0"
  shows "timing_score Math_pow2 Math_sqrt line_trajectory = fl (8 / 10)"
proof -
  have avg: "avgInterval (replicate 19 (Fin 100)) = Fin 100"
    by (simp add: avgInterval_def numeral_eq_Suc fl_int)
  have "stdDevInterval Math_pow2 Math_sqrt (replicate 19 (Fin 100)) = Fin 0"
    unfolding stdDevInterval_def avg
    using assms by (simp add: numeral_eq_Suc d_sub_def fl_int)
  then show ?thesis
    by (simp add: timing_score_def line_intervals fl_4_5 fl_dyadic_e)
qed

lemma line_analysis:
  assumes "Math_pow2 (Fin 0) = Fin 0" and "Math_sqrt (Fin 0) = Fin 0"
  shows "analyzeMouseTrajectory Math_pow2 Math_sqrt line_trajectory =
           \<lparr> regularity_score_d = Fin 1, is_straight_line_d = True \<rparr>"
proof -
  have len: "10 \<le> length line_trajectory"
    by (simp add: line_length)
  have s: "is_straight_line_d (analyzeMouseTrajectory Math_pow2 Math_sqrt line_trajectory)"
    using straight_iff [OF len] line_consistent by simp
  with score_values [OF len, of Math_pow2 Math_sqrt]
  have "regularity_score_d (analyzeMouseTrajectory Math_pow2 Math_sqrt line_trajectory) = Fin 1"
    by simp
  with s show ?thesis
    by (cases "analyzeMouseTrajectory Math_pow2 Math_sqrt line_trajectory") simp
qed

lemma zig_count: "count_consistent zig_trajectory None 0 = 9"
  by (simp add: zig_trajectory_def segment_simps fl_1_10 fl_1_5 fl_3_10 fl_dyadic_a fl_dyadic_b)

lemma zig_length: "length zig_trajectory = 11"
  by (simp add: zig_trajectory_def)

lemma zig_consistent: "slopes_consistent zig_trajectory"
  by (simp add: slopes_consistent_def zig_count zig_length fl_4_5 fl_9_10)

lemma zig_exact_pairs: "exact_pairs zig_trajectory = 0"
  by (simp add: exact_pairs_def exact_slopes_def zig_trajectory_def)

lemma zig_not_exact_straight: "\<not> exact_straight zig_trajectory"
  by (simp add: exact_straight_def zig_exact_pairs)

lemma sqrt_81: "sqrt 81 = 9"
  using real_sqrt_abs [of 9] by simp

lemma sqrt_100: "sqrt 100 = 10"
  using real_sqrt_abs [of 10] by simp

lemma steady_length: "length steady_trajectory = 11"
  by (simp add: steady_trajectory_def)

lemma steady_count: "count_consistent steady_trajectory None 0 = 0"
  by (simp add: steady_trajectory_def segment_simps fl_1_10 fl_1_5 fl_2_5 fl_dyadic_c fl_dyadic_d)

lemma steady_not_consistent: "\<not> slopes_consistent steady_trajectory"
  by (simp add: slopes_consistent_def steady_count steady_length fl_4_5 fl_int)

lemma steady_timing:
  "timing_score square_rounded sqrt_rounded steady_trajectory = fl (8 / 10)"
  by (simp add: timing_score_def stdDevInterval_def avgInterval_def intervals_def
      steady_trajectory_def square_rounded_def pt_def d_sub_def fl_int sqrt_81 fl_4_5 fl_dyadic_e)

lemma steady_analysis:
  "analyzeMouseTrajectory square_rounded sqrt_rounded steady_trajectory =
     \<lparr> regularity_score_d = fl (8 / 10), is_straight_line_d = False \<rparr>"
proof -
  have len: "10 \<le> length steady_trajectory"
    by (simp add: steady_length)
  have s: "\<not> is_straight_line_d (analyzeMouseTrajectory square_rounded sqrt_rounded steady_trajectory)"
    using straight_iff [OF len] steady_not_consistent by simp
  with score_values [OF len, of square_rounded sqrt_rounded] steady_timing
  have "regularity_score_d (analyzeMouseTrajectory square_rounded sqrt_rounded steady_trajectory)
          = fl (8 / 10)"
    by simp
  with s show ?thesis
    by (cases "analyzeMouseTrajectory square_rounded sqrt_rounded steady_trajectory") simp
qed

lemma uneven_length: "length uneven_trajectory = 11"
  by (simp add: uneven_trajectory_def)

lemma uneven_count: "count_consistent uneven_trajectory None 0 = 0"
  by (simp add: uneven_trajectory_def segment_simps fl_1_10 fl_1_5 fl_2_5 fl_dyadic_c fl_dyadic_d)

lemma uneven_not_consistent: "\<not> slopes_consistent uneven_trajectory"
  by (simp add: slopes_consistent_def uneven_count uneven_length fl_4_5 fl_int)

lemma uneven_timing:
  "timing_score square_rounded sqrt_rounded uneven_trajectory = Fin 0"
  by (simp add: timing_score_def stdDevInterval_def avgInterval_def intervals_def
      uneven_trajectory_def square_rounded_def pt_def d_sub_def fl_int sqrt_100)

lemma uneven_analysis:
  "analyzeMouseTrajectory square_rounded sqrt_rounded uneven_trajectory =
     \<lparr> regularity_score_d = Fin 0, is_straight_line_d = False \<rparr>"
proof -
  have len: "10 \<le> length uneven_trajectory"
    by (simp add: uneven_length)
  have s: "\<not> is_straight_line_d (analyzeMouseTrajectory square_rounded sqrt_rounded uneven_trajectory)"
    using straight_iff [OF len] uneven_not_consistent by simp
  with score_values [OF len, of square_rounded sqrt_rounded] uneven_timing
  have "regularity_score_d (analyzeMouseTrajectory square_rounded sqrt_rounded uneven_trajectory)
          = Fin 0"
    by simp
  with s show ?thesis
    by (cases "analyzeMouseTrajectory square_rounded sqrt_rounded uneven_trajectory") simp
qed

lemma reference_zero: "square_rounded (Fin 0) = Fin 0" "sqrt_rounded (Fin 0) = Fin 0"
  by (simp_all add: square_rounded_def fl_int)

lemma zig_analysis:
  "analyzeMouseTrajectory square_rounded sqrt_rounded zig_trajectory =
     \<lparr> regularity_score_d = Fin 1, is_straight_line_d = True \<rparr>"
proof -
  have len: "10 \<le> length zig_trajectory"
    by (simp add: zig_length)
  have s: "is_straight_line_d (analyzeMouseTrajectory square_rounded sqrt_rounded zig_trajectory)"
    using straight_iff [OF len] zig_consistent by simp
  with score_values [OF len, of square_rounded sqrt_rounded]
  have "regularity_score_d (analyzeMouseTrajectory square_rounded sqrt_rounded zig_trajectory) = Fin 1"
    by simp
  with s show ?thesis
    by (cases "analyzeMouseTrajectory square_rounded sqrt_rounded zig_trajectory") simp
qed

text \<open>The roundings of the operations on the intervals of \<open>drift_trajectory\<close>.\<close>

lemma drift_fl_1: "fl (400 / 3) = Fin (4691249611844267 / 35184372088832)"
  using fl_near [of 7 "400 / 3" 4691249611844267] by simp

lemma drift_fl_2: "fl (- (152465612384939 / 35184372088832)) = Fin (- (152465612384939 / 35184372088832))"
  using fl_exact [of "- (152465612384939 / 35184372088832)" "- 152465612384939" "- 45"] by simp

lemma drift_fl_3: "fl (- (117281240296107 / 35184372088832)) = Fin (- (117281240296107 / 35184372088832))"
  using fl_exact [of "- (117281240296107 / 35184372088832)" "- 117281240296107" "- 45"] by simp

lemma drift_fl_4: "fl (- (504309333273259 / 35184372088832)) = Fin (- (504309333273259 / 35184372088832))"
  using fl_exact [of "- (504309333273259 / 35184372088832)" "- 504309333273259" "- 45"] by simp

lemma drift_fl_5: "fl (832696806102357 / 35184372088832) = Fin (832696806102357 / 35184372088832)"
  using fl_exact [of "832696806102357 / 35184372088832" 832696806102357 "- 45"] by simp

lemma drift_fl_6: "fl (199378108503381 / 35184372088832) = Fin (199378108503381 / 35184372088832)"
  using fl_exact [of "199378108503381 / 35184372088832" 199378108503381 "- 45"] by simp

lemma drift_fl_7: "fl (129009364325717 / 35184372088832) = Fin (129009364325717 / 35184372088832)"
  using fl_exact [of "129009364325717 / 35184372088832" 129009364325717 "- 45"] by simp

lemma drift_fl_8: "fl (- (222834356562603 / 35184372088832)) = Fin (- (222834356562603 / 35184372088832))"
  using fl_exact [of "- (222834356562603 / 35184372088832)" "- 222834356562603" "- 45"] by simp

lemma drift_fl_9: "fl (- (11728124029611 / 35184372088832)) = Fin (- (11728124029611 / 35184372088832))"
  using fl_exact [of "- (11728124029611 / 35184372088832)" "- 11728124029611" "- 45"] by simp

lemma drift_fl_10: "fl (23245762959914464583514033721 / 1237940039285380274899124224) = Fin (5285474562677897 / 281474976710656)"
  using fl_near [of 4 "23245762959914464583514033721 / 1237940039285380274899124224" 5285474562677897] by simp

lemma drift_fl_11: "fl (13754889325393192353039355449 / 1237940039285380274899124224) = Fin (3127499741229529 / 281474976710656)"
  using fl_near [of 3 "13754889325393192353039355449 / 1237940039285380274899124224" 6254999482459058] by simp

lemma drift_fl_12: "fl (254327903626519017127164481081 / 1237940039285380274899124224) = Fin (7228433776916717 / 35184372088832)"
  using fl_near [of 7 "254327903626519017127164481081 / 1237940039285380274899124224" 7228433776916717] by simp

lemma drift_fl_13: "fl (693383970893066329953960955449 / 1237940039285380274899124224) = Fin (2463394718052805 / 4398046511104)"
  using fl_near [of 9 "693383970893066329953960955449 / 1237940039285380274899124224" 4926789436105610] by simp

lemma drift_fl_14: "fl (39751630150385967019688431161 / 1237940039285380274899124224) = Fin (1129809281519157 / 35184372088832)"
  using fl_near [of 5 "39751630150385967019688431161 / 1237940039285380274899124224" 4519237126076628] by simp

lemma drift_fl_15: "fl (16643416083725582134067564089 / 1237940039285380274899124224) = Fin (3784274686887689 / 281474976710656)"
  using fl_near [of 3 "16643416083725582134067564089 / 1237940039285380274899124224" 7568549373775378] by simp

lemma drift_fl_16: "fl (49655150464669290693858135609 / 1237940039285380274899124224) = Fin (1411284258229821 / 35184372088832)"
  using fl_near [of 5 "49655150464669290693858135609 / 1237940039285380274899124224" 5645137032919284] by simp

lemma drift_fl_17: "fl (137548893253938960404811321 / 1237940039285380274899124224) = Fin (2001599834387001 / 18014398509481984)"
  using fl_near [of "- 4" "137548893253938960404811321 / 1237940039285380274899124224" 8006399337548004] by simp

lemma drift_fl_18: "fl (5285474562677897 / 281474976710656) = Fin (5285474562677897 / 281474976710656)"
  using fl_exact [of "5285474562677897 / 281474976710656" 5285474562677897 "- 48"] by simp

lemma drift_fl_19: "fl (5285474562677897 / 140737488355328) = Fin (5285474562677897 / 140737488355328)"
  using fl_exact [of "5285474562677897 / 140737488355328" 5285474562677897 "- 47"] by simp

lemma drift_fl_20: "fl (13698448866585323 / 281474976710656) = Fin (3424612216646331 / 70368744177664)"
  using fl_tie [of 5 "13698448866585323 / 281474976710656" 6849224433292661] by simp

lemma drift_fl_21: "fl (17881479770479765 / 70368744177664) = Fin (4470369942619941 / 17592186044416)"
  using fl_tie [of 7 "17881479770479765 / 70368744177664" 8940739885239882] by simp

lemma drift_fl_22: "fl (14323948814831161 / 17592186044416) = Fin (1790493601853895 / 2199023255552)"
  using fl_tie [of 9 "14323948814831161 / 17592186044416" 7161974407415580] by simp

lemma drift_fl_23: "fl (29777706911181477 / 35184372088832) = Fin (7444426727795369 / 8796093022208)"
  using fl_near [of 9 "29777706911181477 / 35184372088832" 7444426727795369] by simp

lemma drift_fl_24: "fl (242005929976339497 / 281474976710656) = Fin (7562685311760609 / 8796093022208)"
  using fl_near [of 9 "242005929976339497 / 281474976710656" 7562685311760609] by simp

lemma drift_fl_25: "fl (31662025505272257 / 35184372088832) = Fin (494719148519879 / 549755813888)"
  using fl_near [of 9 "31662025505272257 / 35184372088832" 7915506376318064] by simp

lemma drift_fl_26: "fl (16212958658533782073 / 18014398509481984) = Fin (3958241859993599 / 4398046511104)"
  using fl_near [of 9 "16212958658533782073 / 18014398509481984" 7916483719987198] by simp

lemma drift_fl_27: "fl (3958241859993599 / 39582418599936) = Fin (3518437208883199 / 35184372088832)"
  using fl_near [of 6 "3958241859993599 / 39582418599936" 7036874417766398] by simp

lemma drift_sqrt: "fl (sqrt (3518437208883199 / 35184372088832)) = Fin (5629499534213119 / 562949953421312)"
  using fl_sqrt_near [of 3 "3518437208883199 / 35184372088832" 5629499534213119] by (simp add: power2_eq_square)

lemmas drift_rounding =
  drift_fl_1 drift_fl_2 drift_fl_3 drift_fl_4 drift_fl_5 drift_fl_6 drift_fl_7 drift_fl_8
  drift_fl_9 drift_fl_10 drift_fl_11 drift_fl_12 drift_fl_13 drift_fl_14 drift_fl_15
  drift_fl_16 drift_fl_17 drift_fl_18 drift_fl_19 drift_fl_20 drift_fl_21 drift_fl_22
  drift_fl_23 drift_fl_24 drift_fl_25 drift_fl_26 drift_fl_27 drift_sqrt

lemma drift_intervals:
  "intervals drift_trajectory =
     [Fin 129, Fin 129, Fin 130, Fin 119, Fin 157, Fin 139, Fin 137, Fin 127, Fin 133]"
  by (simp add: intervals_def drift_trajectory_def pt_def d_sub_def fl_int)

lemma drift_deviation:
  "stdDevInterval square_rounded sqrt_rounded (intervals drift_trajectory) =
     Fin (5629499534213119 / 562949953421312)"
  by (simp add: drift_intervals stdDevInterval_def avgInterval_def square_rounded_def d_sub_def
      fl_int drift_rounding)

lemma drift_length: "length drift_trajectory = 10"
  by (simp add: drift_trajectory_def)

lemma drift_count: "count_consistent drift_trajectory None 0 = 0"
  by (simp add: drift_trajectory_def segment_simps fl_1_10 fl_1_5 fl_2_5 fl_dyadic_c fl_dyadic_d)

lemma drift_not_consistent: "\<not> slopes_consistent drift_trajectory"
  by (simp add: slopes_consistent_def drift_count drift_length fl_4_5 fl_int)

lemma drift_timing:
  "timing_score square_rounded sqrt_rounded drift_trajectory = fl (8 / 10)"
  by (simp add: timing_score_def drift_deviation fl_4_5 fl_dyadic_e)

lemma drift_analysis:
  "analyzeMouseTrajectory square_rounded sqrt_rounded drift_trajectory =
     \<lparr> regularity_score_d = fl (8 / 10), is_straight_line_d = False \<rparr>"
proof -
  have len: "10 \<le> length drift_trajectory"
    by (simp add: drift_length)
  have s: "\<not> is_straight_line_d (analyzeMouseTrajectory square_rounded sqrt_rounded drift_trajectory)"
    using straight_iff [OF len] drift_not_consistent by simp
  with score_values [OF len, of square_rounded sqrt_rounded] drift_timing
  have "regularity_score_d (analyzeMouseTrajectory square_rounded sqrt_rounded drift_trajectory)
          = fl (8 / 10)"
    by simp
  with s show ?thesis
    by (cases "analyzeMouseTrajectory square_rounded sqrt_rounded drift_trajectory") simp
qed

lemma zig_exact_slopes:
  "exact_slopes zig_trajectory =
     [Some (1 / 5), Some (3 / 10), Some (1 / 5), Some (3 / 10), Some (1 / 5),
      Some (3 / 10), Some (1 / 5), Some (3 / 10), Some (1 / 5), Some (3 / 10)]"
  by (simp add: exact_slopes_def zig_trajectory_def)

lemma drift_exact_intervals:
  "exact_intervals drift_trajectory = [129, 129, 130, 119, 157, 139, 137, 127, 133]"
  by (simp add: exact_intervals_def drift_trajectory_def)

lemma drift_exact_deviation:
  "exact_deviation [129, 129, 130, 119, 157, 139, 137, 127, 133] = 10"
  by (simp add: exact_deviation_def exact_mean_def power2_eq_square sqrt_100)

lemma drift_below_ten:
  "d_lt (stdDevInterval square_rounded sqrt_rounded (intervals drift_trajectory)) (Fin 10)"
  by (simp add: drift_deviation)

text \<open>
  The claim C8 as stated, with its two comparisons read in exact arithmetic, fails on
  two trajectories. The exact slopes of \<open>zig_trajectory\<close> are 1/5 and 3/10 in turn, so
  every adjacent pair differs by exactly 1/10 and none by less, and the count of the
  claim is 0. The code computes in doubles, where the difference of the doubles nearest
  3/10 and 1/5 is below the double nearest 1/10: it counts 9 of 10 segments and reports
  a straight line with score 1. The intervals of \<open>drift_trajectory\<close> have the population
  standard deviation 10 exactly, which is not below 10, so the claim adds nothing to
  the score. The code's rounded mean, squares and sums give a square root one step
  below 10 (with correctly rounded \<^verbatim>\<open>Math.pow\<close> and \<^verbatim>\<open>Math.sqrt\<close>), and it adds 0.8.
\<close>

theorem C8_rounding_counterexample:
  "10 \<le> length zig_trajectory
 \<and> exact_slopes zig_trajectory =
     [Some (1 / 5), Some (3 / 10), Some (1 / 5), Some (3 / 10), Some (1 / 5),
      Some (3 / 10), Some (1 / 5), Some (3 / 10), Some (1 / 5), Some (3 / 10)]
 \<and> exact_pairs zig_trajectory = 0
 \<and> \<not> exact_straight zig_trajectory
 \<and> count_consistent zig_trajectory None 0 = 9
 \<and> analyzeMouseTrajectory square_rounded sqrt_rounded zig_trajectory =
       \<lparr> regularity_score_d = Fin 1, is_straight_line_d = True \<rparr>
 \<and> 10 \<le> length drift_trajectory
 \<and> exact_intervals drift_trajectory = [129, 129, 130, 119, 157, 139, 137, 127, 133]
 \<and> exact_deviation (exact_intervals drift_trajectory) = 10
 \<and> stdDevInterval square_rounded sqrt_rounded (intervals drift_trajectory) =
       Fin (5629499534213119 / 562949953421312)
 \<and> d_lt (stdDevInterval square_rounded sqrt_rounded (intervals drift_trajectory)) (Fin 10)
 \<and> analyzeMouseTrajectory square_rounded sqrt_rounded drift_trajectory =
       \<lparr> regularity_score_d = fl (8 / 10), is_straight_line_d = False \<rparr>"
  by (simp only: zig_length drift_length zig_exact_slopes zig_exact_pairs zig_not_exact_straight
      zig_count zig_analysis drift_exact_intervals drift_exact_deviation drift_deviation
      drift_below_ten drift_analysis)
    simp

text \<open>
  C8, amended. A trajectory of fewer than 10 samples is analysed as score 0 and not a
  straight line. For one of \<open>n \<ge> 10\<close> samples every operation is a double-precision
  one, rounded to nearest: the intervals are the \<open>n - 1\<close> rounded differences of
  consecutive timestamps; their mean is the rounded quotient of their left-to-right
  rounded sum by \<open>n - 1\<close>; the standard deviation is \<^verbatim>\<open>Math.sqrt\<close> of the rounded
  quotient by \<open>n - 1\<close> of the rounded sum of the \<^verbatim>\<open>Math.pow(x - mean, 2)\<close>, and the score
  gains the double nearest 0.8 exactly when it is below 10. The slopes are those of the
  segments whose rounded \<open>dx\<close> and \<open>dy\<close> are not both 0, infinity where \<open>dx\<close> is 0 and the
  rounded quotient \<open>dy / dx\<close> otherwise; an adjacent pair is consistent when the absolute
  value of the rounded difference of its slopes is below the double nearest 0.1 (never
  for a vertical segment); the trajectory is a straight line, and the score gains 1,
  exactly when the rounded quotient of the number of consistent pairs by \<open>n - 1\<close> exceeds
  the double nearest 0.8. The score is clamped at 1: it is 1 for a straight line and
  otherwise 0 or the double nearest 0.8. Twenty samples on \<open>y = x\<close>, one every 100 ms,
  are a straight line with score 1 (for every \<^verbatim>\<open>Math.pow\<close> and \<^verbatim>\<open>Math.sqrt\<close> that map 0 to
  0); slopes alternating between 2/10 and 3/10 are a straight line, slopes alternating
  between 2/10 and 4/10 are not; with correctly rounded \<^verbatim>\<open>Math.pow\<close> and \<^verbatim>\<open>Math.sqrt\<close>,
  intervals of 91 and 109 ms in turn gain 0.8, intervals of 90 and 110 ms do not, and
  the intervals of \<open>drift_trajectory\<close> (standard deviation 10 before rounding) gain 0.8.
\<close>

theorem C8_trajectory_analysis:
  "(length trajectory < 10 \<longrightarrow>
      analyzeMouseTrajectory Math_pow2 Math_sqrt trajectory =
        \<lparr> regularity_score_d = Fin 0, is_straight_line_d = False \<rparr>)
 \<and> (10 \<le> length trajectory \<longrightarrow>
      analyzeMouseTrajectory Math_pow2 Math_sqrt trajectory =
        (let n = Fin (real (length trajectory - 1));
             ivs = map (\<lambda>(p, q). d_sub (Fin (snd (snd p))) (Fin (snd (snd q))))
                     (zip (tl trajectory) trajectory);
             avg = d_div (foldl d_add (Fin 0) ivs) n;
             sigma = Math_sqrt (d_div (foldl d_add (Fin 0) (map (\<lambda>x. Math_pow2 (d_sub x avg)) ivs)) n);
             gained = (if d_lt sigma (Fin 10) then d_add (Fin 0) (fl (8 / 10)) else Fin 0);
             slopes = map (\<lambda>(p, q). if d_sub (Fin (fst q)) (Fin (fst p)) = Fin 0 then PInf
                                     else d_div (d_sub (Fin (fst (snd q))) (Fin (fst (snd p))))
                                                (d_sub (Fin (fst q)) (Fin (fst p))))
                        (filter (\<lambda>(p, q). \<not> (d_sub (Fin (fst q)) (Fin (fst p)) = Fin 0
                                             \<and> d_sub (Fin (fst (snd q))) (Fin (fst (snd p))) = Fin 0))
                           (zip trajectory (tl trajectory)));
             pairs = length (filter (\<lambda>(earlier, later). d_lt (d_abs (d_sub later earlier)) (fl (1 / 10)))
                               (zip slopes (tl slopes)));
             straight = d_lt (fl (8 / 10)) (d_div (Fin (real pairs)) n)
         in \<lparr> regularity_score_d = Math_min (if straight then d_add gained (Fin 1) else gained) (Fin 1),
               is_straight_line_d = straight \<rparr>)
    \<and> (is_straight_line_d (analyzeMouseTrajectory Math_pow2 Math_sqrt trajectory) \<longrightarrow>
          regularity_score_d (analyzeMouseTrajectory Math_pow2 Math_sqrt trajectory) = Fin 1)
    \<and> (is_straight_line_d (analyzeMouseTrajectory Math_pow2 Math_sqrt trajectory)
        \<or> regularity_score_d (analyzeMouseTrajectory Math_pow2 Math_sqrt trajectory) = Fin 0
        \<or> regularity_score_d (analyzeMouseTrajectory Math_pow2 Math_sqrt trajectory) = fl (8 / 10)))
 \<and> fl (1 / 10) = Fin (3602879701896397 / 36028797018963968)
 \<and> fl (8 / 10) = Fin (3602879701896397 / 4503599627370496)
 \<and> (Math_pow2 (Fin 0) = Fin 0 \<and> Math_sqrt (Fin 0) = Fin 0 \<longrightarrow>
      analyzeMouseTrajectory Math_pow2 Math_sqrt line_trajectory =
        \<lparr> regularity_score_d = Fin 1, is_straight_line_d = True \<rparr>)
 \<and> is_straight_line_d (analyzeMouseTrajectory Math_pow2 Math_sqrt zig_trajectory)
 \<and> \<not> is_straight_line_d (analyzeMouseTrajectory Math_pow2 Math_sqrt steady_trajectory)
 \<and> analyzeMouseTrajectory square_rounded sqrt_rounded steady_trajectory =
       \<lparr> regularity_score_d = fl (8 / 10), is_straight_line_d = False \<rparr>
 \<and> analyzeMouseTrajectory square_rounded sqrt_rounded uneven_trajectory =
       \<lparr> regularity_score_d = Fin 0, is_straight_line_d = False \<rparr>
 \<and> analyzeMouseTrajectory square_rounded sqrt_rounded drift_trajectory =
       \<lparr> regularity_score_d = fl (8 / 10), is_straight_line_d = False \<rparr>"
proof (intro conjI impI)
  assume "length trajectory < 10"
  then show "analyzeMouseTrajectory Math_pow2 Math_sqrt trajectory =
      \<lparr> regularity_score_d = Fin 0, is_straight_line_d = False \<rparr>"
    by (rule analysis_short)
next
  assume "10 \<le> length trajectory"
  then show "analyzeMouseTrajectory Math_pow2 Math_sqrt trajectory =
        (let n = Fin (real (length trajectory - 1));
             ivs = map (\<lambda>(p, q). d_sub (Fin (snd (snd p))) (Fin (snd (snd q))))
                     (zip (tl trajectory) trajectory);
             avg = d_div (foldl d_add (Fin 0) ivs) n;
             sigma = Math_sqrt (d_div (foldl d_add (Fin 0) (map (\<lambda>x. Math_pow2 (d_sub x avg)) ivs)) n);
             gained = (if d_lt sigma (Fin 10) then d_add (Fin 0) (fl (8 / 10)) else Fin 0);
             slopes = map (\<lambda>(p, q). if d_sub (Fin (fst q)) (Fin (fst p)) = Fin 0 then PInf
                                     else d_div (d_sub (Fin (fst (snd q))) (Fin (fst (snd p))))
                                                (d_sub (Fin (fst q)) (Fin (fst p))))
                        (filter (\<lambda>(p, q). \<not> (d_sub (Fin (fst q)) (Fin (fst p)) = Fin 0
                                             \<and> d_sub (Fin (fst (snd q))) (Fin (fst (snd p))) = Fin 0))
                           (zip trajectory (tl trajectory)));
             pairs = length (filter (\<lambda>(earlier, later). d_lt (d_abs (d_sub later earlier)) (fl (1 / 10)))
                               (zip slopes (tl slopes)));
             straight = d_lt (fl (8 / 10)) (d_div (Fin (real pairs)) n)
         in \<lparr> regularity_score_d = Math_min (if straight then d_add gained (Fin 1) else gained) (Fin 1),
               is_straight_line_d = straight \<rparr>)"
    by (rule analysis_long)
next
  assume "10 \<le> length trajectory"
    and "is_straight_line_d (analyzeMouseTrajectory Math_pow2 Math_sqrt trajectory)"
  then show "regularity_score_d (analyzeMouseTrajectory Math_pow2 Math_sqrt trajectory) = Fin 1"
    by (simp add: score_values)
next
  assume len: "10 \<le> length trajectory"
  show "is_straight_line_d (analyzeMouseTrajectory Math_pow2 Math_sqrt trajectory)
        \<or> regularity_score_d (analyzeMouseTrajectory Math_pow2 Math_sqrt trajectory) = Fin 0
        \<or> regularity_score_d (analyzeMouseTrajectory Math_pow2 Math_sqrt trajectory) = fl (8 / 10)"
    using score_values [OF len, of Math_pow2 Math_sqrt]
      timing_score_values [of Math_pow2 Math_sqrt trajectory]
    by auto
next
  show "fl (1 / 10) = Fin (3602879701896397 / 36028797018963968)"
    by (rule fl_1_10)
next
  show "fl (8 / 10) = Fin (3602879701896397 / 4503599627370496)"
    by (simp add: fl_4_5)
next
  assume "Math_pow2 (Fin 0) = Fin 0 \<and> Math_sqrt (Fin 0) = Fin 0"
  then show "analyzeMouseTrajectory Math_pow2 Math_sqrt line_trajectory =
      \<lparr> regularity_score_d = Fin 1, is_straight_line_d = True \<rparr>"
    by (simp add: line_analysis)
next
  show "is_straight_line_d (analyzeMouseTrajectory Math_pow2 Math_sqrt zig_trajectory)"
    by (simp add: straight_iff zig_length zig_consistent)
next
  show "\<not> is_straight_line_d (analyzeMouseTrajectory Math_pow2 Math_sqrt steady_trajectory)"
    by (simp add: straight_iff steady_length steady_not_consistent)
next
  show "analyzeMouseTrajectory square_rounded sqrt_rounded steady_trajectory =
       \<lparr> regularity_score_d = fl (8 / 10), is_straight_line_d = False \<rparr>"
    by (rule steady_analysis)
next
  show "analyzeMouseTrajectory square_rounded sqrt_rounded uneven_trajectory =
       \<lparr> regularity_score_d = Fin 0, is_straight_line_d = False \<rparr>"
    by (rule uneven_analysis)
next
  show "analyzeMouseTrajectory square_rounded sqrt_rounded drift_trajectory =
       \<lparr> regularity_score_d = fl (8 / 10), is_straight_line_d = False \<rparr>"
    by (rule drift_analysis)
qed

theorem C8_line_witness:
  "10 \<le> length line_trajectory
 \<and> square_rounded (Fin 0) = Fin 0 \<and> sqrt_rounded (Fin 0) = Fin 0
 \<and> analyzeMouseTrajectory square_rounded sqrt_rounded line_trajectory =
       \<lparr> regularity_score_d = Fin 1, is_straight_line_d = True \<rparr>
 \<and> length [(0, 0, 0) :: point] < 10
 \<and> analyzeMouseTrajectory square_rounded sqrt_rounded [(0, 0, 0)] =
       \<lparr> regularity_score_d = Fin 0, is_straight_line_d = False \<rparr>"
proof -
  have len: "10 \<le> length line_trajectory"
    by (simp add: line_length)
  have zero: "square_rounded (Fin 0) = Fin 0 \<and> sqrt_rounded (Fin 0) = Fin 0"
    by (simp add: reference_zero fl_zero)
  from C8_trajectory_analysis [of line_trajectory square_rounded sqrt_rounded] zero
  have line: "analyzeMouseTrajectory square_rounded sqrt_rounded line_trajectory =
       \<lparr> regularity_score_d = Fin 1, is_straight_line_d = True \<rparr>"
    by blast
  have short: "length [(0, 0, 0) :: point] < 10"
    by simp
  from C8_trajectory_analysis [of "[(0, 0, 0)]" square_rounded sqrt_rounded] short
  have "analyzeMouseTrajectory square_rounded sqrt_rounded [(0, 0, 0)] =
       \<lparr> regularity_score_d = Fin 0, is_straight_line_d = False \<rparr>"
    by blast
  with len zero line short show ?thesis
    by blast
qed

section \<open>Properties of the Data Loom: mouse tracking\<close>

lemma on_mousemove_state:
  "on_mousemove clientX clientY now1 now2 now3 s =
     (if now1 - mt (lastMousePosition s) > 100
      then \<lparr> lastMousePosition =
               \<lparr> mx = clientX, my = clientY, mt = now2, mc = mc (lastMousePosition s) \<rparr>,
             mouseTrajectory =
               (if length (mouseTrajectory s) < 50
                then mouseTrajectory s @ [(clientX, clientY, real_of_int now3)]
                else mouseTrajectory s) \<rparr>
      else s)"
  by (simp add: on_mousemove_def)

lemma on_mousemove_trajectory:
  "mouseTrajectory (on_mousemove clientX clientY now1 now2 now3 s) =
     (if now1 - mt (lastMousePosition s) > 100 \<and> length (mouseTrajectory s) < 50
      then mouseTrajectory s @ [(clientX, clientY, real_of_int now3)]
      else mouseTrajectory s)"
  by (simp add: on_mousemove_def)

lemma mouse_step_bound:
  "length (mouseTrajectory s) \<le> 50 \<Longrightarrow>
     length (mouseTrajectory (mouse_step Math_pow2 Math_sqrt s e)) \<le> 50"
  by (cases e) (simp_all add: on_mousemove_trajectory on_click_def getMouseTrajectory_def)

lemma foldl_mouse_step_bound:
  "length (mouseTrajectory s) \<le> 50 \<Longrightarrow>
     length (mouseTrajectory (foldl (mouse_step Math_pow2 Math_sqrt) s es)) \<le> 50"
  by (induction es arbitrary: s) (simp_all add: mouse_step_bound)

lemma spaced_snoc:
  "spaced (ps @ [q]) \<longleftrightarrow> spaced ps \<and> (ps = [] \<or> snd (snd q) - snd (snd (last ps)) > 100)"
  by (induction ps rule: spaced.induct) auto

lemma mouse_step_throttled:
  assumes "throttled s" and "one_reading e"
  shows "throttled (mouse_step Math_pow2 Math_sqrt s e)"
proof (cases e)
  case (MouseMove clientX clientY now1 now2 now3)
  with assms(2) have eq: "now2 = now1" "now3 = now1" by simp_all
  show ?thesis
  proof (cases "now1 - mt (lastMousePosition s) > 100")
    case True
    then have "real_of_int (mt (lastMousePosition s)) + 100 < real_of_int now1"
      by linarith
    with assms(1) True show ?thesis
      unfolding MouseMove eq
      by (auto simp: throttled_def on_mousemove_def spaced_snoc)
  next
    case False
    with assms(1) show ?thesis
      unfolding MouseMove by (simp add: on_mousemove_def)
  qed
next
  case Click
  with assms(1) show ?thesis
    by (simp add: throttled_def on_click_def)
next
  case TrajectoryProbe
  then show ?thesis
    by (simp add: throttled_def getMouseTrajectory_def)
qed

lemma foldl_mouse_step_throttled:
  "throttled s \<Longrightarrow> list_all one_reading es \<Longrightarrow>
     throttled (foldl (mouse_step Math_pow2 Math_sqrt) s es)"
  by (induction es arbitrary: s) (simp_all add: mouse_step_throttled)

lemma initial_throttled: "throttled initial_mouse"
  by (simp add: throttled_def initial_mouse_def)

text \<open>The state after the first \<open>k\<close> of the fifty moves.\<close>

lemma fill_prefix:
  "k < 50 \<Longrightarrow>
     foldl (mouse_step Math_pow2 Math_sqrt) initial_mouse
       (map (\<lambda>i. MouseMove 0 0 (1000 + 200 * int i) (1000 + 200 * int i) (1000 + 200 * int i))
          [0..<Suc k]) =
     \<lparr> lastMousePosition = \<lparr> mx = 0, my = 0, mt = 1000 + 200 * int k, mc = 0 \<rparr>,
       mouseTrajectory = map (\<lambda>i. (0, 0, 1000 + 200 * real i)) [0..<Suc k] \<rparr>"
proof (induction k)
  case 0
  then show ?case
    by (simp add: on_mousemove_def initial_mouse_def)
next
  case (Suc k)
  then have "k < 50" by simp
  from Suc.IH [OF this] Suc.prems show ?case
    by (simp add: on_mousemove_def)
qed

lemma fill_state:
  "foldl (mouse_step Math_pow2 Math_sqrt) initial_mouse fill_events =
     \<lparr> lastMousePosition = \<lparr> mx = 0, my = 0, mt = 10800, mc = 0 \<rparr>,
       mouseTrajectory = map (\<lambda>i. (0, 0, 1000 + 200 * real i)) [0..<50] \<rparr>"
  using fill_prefix [of 49 Math_pow2 Math_sqrt] by (simp add: fill_events_def eval_nat_numeral)

lemma fill_one_reading: "list_all one_reading fill_events"
  by (simp add: fill_events_def list_all_iff)

text \<open>The fifty-first move passes the time test, finds the buffer full, and stores its time.\<close>

lemma full_state:
  "foldl (mouse_step Math_pow2 Math_sqrt) initial_mouse (fill_events @ [MouseMove 0 0 11000 11000 11000]) =
     \<lparr> lastMousePosition = \<lparr> mx = 0, my = 0, mt = 11000, mc = 0 \<rparr>,
       mouseTrajectory = map (\<lambda>i. (0, 0, 1000 + 200 * real i)) [0..<50] \<rparr>"
  by (simp add: fill_state on_mousemove_state)

lemma drained_state:
  "foldl (mouse_step Math_pow2 Math_sqrt) initial_mouse full_then_drained =
     \<lparr> lastMousePosition = \<lparr> mx = 0, my = 0, mt = 11000, mc = 0 \<rparr>, mouseTrajectory = [] \<rparr>"
  by (simp add: full_then_drained_def fill_state on_mousemove_state getMouseTrajectory_def)

lemma last_filled: "last (map (\<lambda>i. (0 :: real, 0 :: real, 1000 + 200 * real i)) [0..<50]) = (0, 0, 10800)"
  by (simp add: last_map)

text \<open>
  The claim C9 as stated fails twice. A move exactly 100 ms after the last accepted
  sample, with one sample in the buffer, is dropped although at least 100 ms have
  elapsed. And the time the listener compares with is not that of the last accepted
  sample: after fifty samples (the last at 10800) a move at 11000 passes the time test,
  is not appended to the full buffer, and still stores its time; the probe then returns
  the fifty samples and empties the buffer; a move at 11050, 250 ms after the last
  accepted sample and with the buffer empty, is dropped.
\<close>

theorem C9_last_accepted_sample_counterexample:
  "mouseTrajectory (on_mousemove 1 1 1000 1000 1000 initial_mouse) = [(1, 1, 1000)]
 \<and> (100 :: int) \<le> 1100 - 1000
 \<and> length (mouseTrajectory (on_mousemove 1 1 1000 1000 1000 initial_mouse)) < 50
 \<and> mouseTrajectory (on_mousemove 2 2 1100 1100 1100 (on_mousemove 1 1 1000 1000 1000 initial_mouse)) =
     [(1, 1, 1000)]
 \<and> length (mouseTrajectory (foldl (mouse_step square_rounded sqrt_rounded) initial_mouse fill_events)) = 50
 \<and> last (mouseTrajectory (foldl (mouse_step square_rounded sqrt_rounded) initial_mouse fill_events)) =
     (0, 0, 10800)
 \<and> mouseTrajectory (foldl (mouse_step square_rounded sqrt_rounded) initial_mouse
       (fill_events @ [MouseMove 0 0 11000 11000 11000])) =
     mouseTrajectory (foldl (mouse_step square_rounded sqrt_rounded) initial_mouse fill_events)
 \<and> mouseTrajectory (foldl (mouse_step square_rounded sqrt_rounded) initial_mouse full_then_drained) = []
 \<and> (100 :: int) \<le> 11050 - 10800
 \<and> mouseTrajectory (on_mousemove 0 0 11050 11050 11050
       (foldl (mouse_step square_rounded sqrt_rounded) initial_mouse full_then_drained)) = []"
proof (intro conjI)
  show "mouseTrajectory (on_mousemove 1 1 1000 1000 1000 initial_mouse) = [(1, 1, 1000)]"
    by (simp add: on_mousemove_trajectory initial_mouse_def)
  show "(100 :: int) \<le> 1100 - 1000"
    by simp
  show "length (mouseTrajectory (on_mousemove 1 1 1000 1000 1000 initial_mouse)) < 50"
    by (simp add: on_mousemove_trajectory initial_mouse_def)
  show "mouseTrajectory (on_mousemove 2 2 1100 1100 1100 (on_mousemove 1 1 1000 1000 1000 initial_mouse)) =
     [(1, 1, 1000)]"
    by (simp add: on_mousemove_state initial_mouse_def)
  show "length (mouseTrajectory (foldl (mouse_step square_rounded sqrt_rounded) initial_mouse fill_events)) = 50"
    by (simp add: fill_state)
  show "last (mouseTrajectory (foldl (mouse_step square_rounded sqrt_rounded) initial_mouse fill_events)) =
     (0, 0, 10800)"
    by (simp only: fill_state mouse_state.simps last_filled)
  show "mouseTrajectory (foldl (mouse_step square_rounded sqrt_rounded) initial_mouse
       (fill_events @ [MouseMove 0 0 11000 11000 11000])) =
     mouseTrajectory (foldl (mouse_step square_rounded sqrt_rounded) initial_mouse fill_events)"
    by (simp only: full_state fill_state mouse_state.simps)
  show "mouseTrajectory (foldl (mouse_step square_rounded sqrt_rounded) initial_mouse full_then_drained) = []"
    by (simp add: drained_state)
  show "(100 :: int) \<le> 11050 - 10800"
    by simp
  show "mouseTrajectory (on_mousemove 0 0 11050 11050 11050
       (foldl (mouse_step square_rounded sqrt_rounded) initial_mouse full_then_drained)) = []"
    by (simp add: drained_state on_mousemove_state)
qed

text \<open>
  C9, amended. In every state reached from the initial one by moves, clicks and runs
  of the probe, the buffer holds at most 50 samples; and when each move reads one
  clock value, consecutive samples of the buffer are more than 100 ms apart. A move
  whose clock reading exceeds the time stored in \<^verbatim>\<open>lastMousePosition\<close> by more than 100
  ms stores its position and its time there, keeping the click count, whether or not
  the buffer has room, and any other move changes nothing; the sample is appended if
  and only if that test passes and the buffer holds fewer than 50 samples, and
  otherwise the buffer is unchanged. A click changes neither the buffer nor the stored
  time. The probe returns the buffer and its analysis, leaves the buffer empty and
  \<^verbatim>\<open>lastMousePosition\<close> as it was.
\<close>

theorem C9_mouse_buffer:
  "length (mouseTrajectory (foldl (mouse_step Math_pow2 Math_sqrt) initial_mouse es)) \<le> 50
 \<and> (list_all one_reading es \<longrightarrow>
      spaced (mouseTrajectory (foldl (mouse_step Math_pow2 Math_sqrt) initial_mouse es)))
 \<and> on_mousemove clientX clientY now1 now2 now3 s =
     (if now1 - mt (lastMousePosition s) > 100
      then \<lparr> lastMousePosition =
               \<lparr> mx = clientX, my = clientY, mt = now2, mc = mc (lastMousePosition s) \<rparr>,
             mouseTrajectory =
               (if length (mouseTrajectory s) < 50
                then mouseTrajectory s @ [(clientX, clientY, real_of_int now3)]
                else mouseTrajectory s) \<rparr>
      else s)
 \<and> (mouseTrajectory (on_mousemove clientX clientY now1 now2 now3 s) =
       mouseTrajectory s @ [(clientX, clientY, real_of_int now3)]
     \<longleftrightarrow> now1 - mt (lastMousePosition s) > 100 \<and> length (mouseTrajectory s) < 50)
 \<and> (mouseTrajectory (on_mousemove clientX clientY now1 now2 now3 s) = mouseTrajectory s
     \<longleftrightarrow> \<not> (now1 - mt (lastMousePosition s) > 100 \<and> length (mouseTrajectory s) < 50))
 \<and> mouseTrajectory (on_click s) = mouseTrajectory s
 \<and> mt (lastMousePosition (on_click s)) = mt (lastMousePosition s)
 \<and> mc (lastMousePosition (on_click s)) = mc (lastMousePosition s) + 1
 \<and> getMouseTrajectory Math_pow2 Math_sqrt s =
     (\<lparr> points_d = mouseTrajectory s,
        analysis_d = analyzeMouseTrajectory Math_pow2 Math_sqrt (mouseTrajectory s) \<rparr>,
      \<lparr> lastMousePosition = lastMousePosition s, mouseTrajectory = [] \<rparr>)"
proof (intro conjI impI)
  show "length (mouseTrajectory (foldl (mouse_step Math_pow2 Math_sqrt) initial_mouse es)) \<le> 50"
    by (rule foldl_mouse_step_bound) (simp add: initial_mouse_def)
next
  assume "list_all one_reading es"
  with initial_throttled
  have "throttled (foldl (mouse_step Math_pow2 Math_sqrt) initial_mouse es)"
    by (rule foldl_mouse_step_throttled)
  then show "spaced (mouseTrajectory (foldl (mouse_step Math_pow2 Math_sqrt) initial_mouse es))"
    by (simp add: throttled_def)
next
  show "on_mousemove clientX clientY now1 now2 now3 s =
     (if now1 - mt (lastMousePosition s) > 100
      then \<lparr> lastMousePosition =
               \<lparr> mx = clientX, my = clientY, mt = now2, mc = mc (lastMousePosition s) \<rparr>,
             mouseTrajectory =
               (if length (mouseTrajectory s) < 50
                then mouseTrajectory s @ [(clientX, clientY, real_of_int now3)]
                else mouseTrajectory s) \<rparr>
      else s)"
    by (rule on_mousemove_state)
next
  show "mouseTrajectory (on_mousemove clientX clientY now1 now2 now3 s) =
       mouseTrajectory s @ [(clientX, clientY, real_of_int now3)]
     \<longleftrightarrow> now1 - mt (lastMousePosition s) > 100 \<and> length (mouseTrajectory s) < 50"
    by (simp add: on_mousemove_trajectory)
next
  show "mouseTrajectory (on_mousemove clientX clientY now1 now2 now3 s) = mouseTrajectory s
     \<longleftrightarrow> \<not> (now1 - mt (lastMousePosition s) > 100 \<and> length (mouseTrajectory s) < 50)"
    by (simp add: on_mousemove_trajectory)
next
  show "mouseTrajectory (on_click s) = mouseTrajectory s"
    by (simp add: on_click_def)
next
  show "mt (lastMousePosition (on_click s)) = mt (lastMousePosition s)"
    by (simp add: on_click_def)
next
  show "mc (lastMousePosition (on_click s)) = mc (lastMousePosition s) + 1"
    by (simp add: on_click_def)
next
  show "getMouseTrajectory Math_pow2 Math_sqrt s =
     (\<lparr> points_d = mouseTrajectory s,
        analysis_d = analyzeMouseTrajectory Math_pow2 Math_sqrt (mouseTrajectory s) \<rparr>,
      \<lparr> lastMousePosition = lastMousePosition s, mouseTrajectory = [] \<rparr>)"
    by (simp add: getMouseTrajectory_def)
qed

theorem C9_fifty_moves_witness:
  "list_all one_reading fill_events
 \<and> spaced (mouseTrajectory (foldl (mouse_step square_rounded sqrt_rounded) initial_mouse fill_events))
 \<and> length (mouseTrajectory (foldl (mouse_step square_rounded sqrt_rounded) initial_mouse fill_events)) \<le> 50
 \<and> mouseTrajectory (on_mousemove 3 4 1000 1000 1000 initial_mouse) = [(3, 4, 1000)]
 \<and> mt (lastMousePosition (on_mousemove 3 4 1000 1000 1000 initial_mouse)) = 1000"
proof -
  note inst = C9_mouse_buffer [of square_rounded sqrt_rounded fill_events 3 4 1000 1000 1000 initial_mouse]
  have ones: "list_all one_reading fill_events"
    by (rule fill_one_reading)
  with inst
  have sp: "spaced (mouseTrajectory (foldl (mouse_step square_rounded sqrt_rounded) initial_mouse fill_events))"
    by blast
  from inst
  have len: "length (mouseTrajectory (foldl (mouse_step square_rounded sqrt_rounded) initial_mouse fill_events)) \<le> 50"
    by blast
  from inst have "on_mousemove 3 4 1000 1000 1000 initial_mouse =
     (if 1000 - mt (lastMousePosition initial_mouse) > 100
      then \<lparr> lastMousePosition =
               \<lparr> mx = 3, my = 4, mt = 1000, mc = mc (lastMousePosition initial_mouse) \<rparr>,
             mouseTrajectory =
               (if length (mouseTrajectory initial_mouse) < 50
                then mouseTrajectory initial_mouse @ [(3, 4, real_of_int 1000)]
                else mouseTrajectory initial_mouse) \<rparr>
      else initial_mouse)"
    by blast
  then have mv: "mouseTrajectory (on_mousemove 3 4 1000 1000 1000 initial_mouse) = [(3, 4, 1000)]
      \<and> mt (lastMousePosition (on_mousemove 3 4 1000 1000 1000 initial_mouse)) = 1000"
    by (simp add: initial_mouse_def)
  from ones sp len mv show ?thesis
    by blast
qed

end
